theory Spec2Isabelle
  imports Main
begin

section \<open>Data model (airport/models.py)\<close>

text \<open>
  The Django models that the seat logic touches.  Integer columns are Python integers
  (\<open>int\<close>); a foreign key read through an attribute (\<open>ticket.flight.airplane\<close>) is the
  referenced object, so \<open>Flight\<close> carries its \<open>Airplane\<close> and \<open>Ticket\<close> its \<open>Flight\<close> and
  \<open>Order\<close>.  Objects are identified by their primary key.  A \<open>DateTimeField\<close> is a pair
  of a calendar date and a time of day; \<open>Order.user\<close> holds the key of the owning user.
\<close>

record Airplane =
  airplane_id :: nat
  name :: string
  rows :: int
  seats_in_row :: int
  airplane_type :: nat

definition capacity :: "Airplane \<Rightarrow> int" where
  "capacity self = rows self * seats_in_row self"

text \<open>
  The seat map as the specification words it (\<open>isValidSeat\<close>): a seat is valid when
  \<open>1 \<le> row \<le> rows\<close> and \<open>1 \<le> seat \<le> seats_in_row\<close>.  The code's validator is compared
  with it below.
\<close>

definition isValidSeat :: "Airplane \<Rightarrow> int \<Rightarrow> int \<Rightarrow> bool" where
  "isValidSeat a r s \<longleftrightarrow> 1 \<le> r \<and> r \<le> rows a \<and> 1 \<le> s \<and> s \<le> seats_in_row a"

record Order =
  order_id :: nat
  created_at :: nat
  user :: nat

record Flight =
  flight_id :: nat
  route :: nat
  airplane :: Airplane
  departure_time :: "nat \<times> nat"
  arrival_time :: "nat \<times> nat"

record Ticket =
  row :: int
  seat :: int
  flight :: Flight
  order :: Order

subsection \<open>Exceptions\<close>

text \<open>
  A validation error carries a message dictionary, kept as an association list from field
  name to message.  \<open>Ticket.validate_ticket\<close> receives the exception class to raise:
  Django's \<open>ValidationError\<close> from \<open>Ticket.clean\<close>, the REST framework's from
  \<open>TicketSerializer.validate\<close>.
\<close>

type_synonym message_dict = "(string \<times> string) list"

datatype error =
    DjangoValidationError message_dict
  | DRFValidationError message_dict
  | IntegrityError
  | KeyError string
  | ValueError
  | TypeError
  | AttributeError string
  | NotAuthenticated
  | PermissionDenied
  | NotFound
  | OverflowError

type_synonym 'a result = "error + 'a"

subsection \<open>Formatting integers\<close>

text \<open>Python's \<open>str\<close> on an integer, as the f-string of the error message uses it.\<close>

definition digit_char :: "nat \<Rightarrow> char" where
  "digit_char d = ''0123456789'' ! (d mod 10)"

function str_nat :: "nat \<Rightarrow> string" where
  "str_nat n = (if n < 10 then [digit_char n] else str_nat (n div 10) @ [digit_char n])"
  by pat_completeness auto
termination
  by (relation "measure id") auto

declare str_nat.simps [simp del]

definition str_int :: "int \<Rightarrow> string" where
  "str_int i = (if i < 0 then CHR ''-'' # str_nat (nat (- i)) else str_nat (nat i))"

subsection \<open>Ticket.validate_ticket\<close>

text \<open>
  \<open>getattr(airplane, airplane_attr_name)\<close>: the attribute named by a string, for the
  integer attributes of an airplane.  A name that is not an attribute raises
  \<open>AttributeError\<close>.
\<close>

definition getattr :: "Airplane \<Rightarrow> string \<Rightarrow> int result" where
  "getattr a attr =
     (if attr = ''rows'' then Inr (rows a)
      else if attr = ''seats_in_row'' then Inr (seats_in_row a)
      else if attr = ''capacity'' then Inr (capacity a)
      else Inl (AttributeError attr))"

definition range_message :: "string \<Rightarrow> string \<Rightarrow> int \<Rightarrow> string" where
  "range_message ticket_attr_name airplane_attr_name count_attrs =
     ticket_attr_name @ '' '' @ ''number must be in available range: ''
       @ ''(1, '' @ airplane_attr_name @ ''): ''
       @ ''(1, '' @ str_int count_attrs @ '')''"

text \<open>
  The \<open>for\<close> loop over the (value, ticket attribute, airplane attribute) triples: the first
  triple whose value is outside \<open>1 .. count_attrs\<close> raises, and the loop ends there.
\<close>

fun validate_loop ::
  "(int \<times> string \<times> string) list \<Rightarrow> Airplane \<Rightarrow> (message_dict \<Rightarrow> error) \<Rightarrow> unit result" where
  "validate_loop [] airplane' error_to_raise = Inr ()"
| "validate_loop ((ticket_attr_value, ticket_attr_name, airplane_attr_name) # rest)
      airplane' error_to_raise =
     (case getattr airplane' airplane_attr_name of
        Inl e \<Rightarrow> Inl e
      | Inr count_attrs \<Rightarrow>
          if \<not> (1 \<le> ticket_attr_value \<and> ticket_attr_value \<le> count_attrs)
          then Inl (error_to_raise
                 [(ticket_attr_name,
                   range_message ticket_attr_name airplane_attr_name count_attrs)])
          else validate_loop rest airplane' error_to_raise)"

definition validate_ticket ::
  "int \<Rightarrow> int \<Rightarrow> Airplane \<Rightarrow> (message_dict \<Rightarrow> error) \<Rightarrow> unit result" where
  "validate_ticket row' seat' airplane' error_to_raise =
     validate_loop [(row', ''row'', ''rows''), (seat', ''seat'', ''seats_in_row'')]
       airplane' error_to_raise"

text \<open>\<open>Ticket.clean\<close>.\<close>

definition clean :: "Ticket \<Rightarrow> unit result" where
  "clean self = validate_ticket (row self) (seat self) (airplane (flight self))
     DjangoValidationError"

subsection \<open>TicketSerializer.validate (airport/serializers.py)\<close>

text \<open>
  \<open>attrs\<close> holds the validated fields of one ticket request; the inherited \<open>validate\<close>
  returns it unchanged.
\<close>

record ticket_attrs =
  attrs_row :: int
  attrs_seat :: int
  attrs_flight :: Flight

definition TicketSerializer_validate :: "ticket_attrs \<Rightarrow> ticket_attrs result" where
  "TicketSerializer_validate attrs =
     (let data = attrs in
      case validate_ticket (attrs_row attrs) (attrs_seat attrs) (airplane (attrs_flight attrs))
             DRFValidationError of
        Inl e \<Rightarrow> Inl e
      | Inr _ \<Rightarrow> Inr data)"

section \<open>The persistent store\<close>

text \<open>
  The database tables the operations read and write.  A stored ticket row is kept with the
  objects its foreign keys refer to; rows are compared through primary keys.  Tables are
  lists in insertion order; of the airplane types the keys are kept.  The database is
  SQLite, the backend of Django's default settings: its integer columns hold signed
  64-bit values, and an INSERT of an integer outside that range raises \<open>OverflowError\<close>.
\<close>

record store =
  airplane_types :: "nat list"
  airplanes :: "Airplane list"
  flights :: "Flight list"
  orders :: "Order list"
  tickets :: "Ticket list"

definition empty_store :: store where
  "empty_store =
     \<lparr>airplane_types = [], airplanes = [], flights = [], orders = [], tickets = []\<rparr>"

text \<open>
  \<open>Ticket.Meta.unique_together = ("flight", "row", "seat")\<close>: two ticket rows collide when
  they agree on the flight's key, the row and the seat.
\<close>

definition unique_together :: "string list" where
  "unique_together = [''flight'', ''row'', ''seat'']"

definition same_seat :: "Ticket \<Rightarrow> Ticket \<Rightarrow> bool" where
  "same_seat a b \<longleftrightarrow>
     flight_id (flight a) = flight_id (flight b) \<and> row a = row b \<and> seat a = seat b"

definition seat_taken :: "store \<Rightarrow> Ticket \<Rightarrow> bool" where
  "seat_taken db self = list_ex (same_seat self) (tickets db)"

subsection \<open>Ticket.save\<close>

text \<open>
  \<open>Model.validate_unique(exclude)\<close> for a new instance: a \<open>unique_together\<close> check is
  skipped when one of its fields is excluded, and otherwise looks the combination up in
  the table.  The error is a non-field error, under the key \<open>__all__\<close>.
\<close>

definition unique_message :: string where
  "unique_message = ''Ticket with this Flight, Row and Seat already exists.''"

definition validate_unique :: "store \<Rightarrow> string list \<Rightarrow> Ticket \<Rightarrow> message_dict" where
  "validate_unique db exclude self =
     (if list_ex (\<lambda>field. field \<in> set exclude) unique_together then []
      else if seat_taken db self then [(''__all__'', unique_message)]
      else [])"

text \<open>
  \<open>self.full_clean()\<close>: \<open>clean()\<close> runs first and its validation error is collected; the
  fields it names are excluded from the uniqueness checks, which run next; at the end one
  validation error with everything collected is raised.  (\<open>clean_fields\<close> has nothing to
  reject on values of these types.)  An exception of \<open>clean()\<close> that is not a validation
  error propagates at once.
\<close>

definition full_clean :: "store \<Rightarrow> Ticket \<Rightarrow> unit result" where
  "full_clean db self =
     (case clean self of
        Inl (DjangoValidationError d) \<Rightarrow>
          Inl (DjangoValidationError (d @ validate_unique db (map fst d) self))
      | Inl e \<Rightarrow> Inl e
      | Inr _ \<Rightarrow>
          (let errors = validate_unique db [] self
           in if errors \<noteq> [] then Inl (DjangoValidationError errors) else Inr ()))"

text \<open>
  \<open>super().save(...)\<close> for a new instance: the INSERT, refused by the table's uniqueness
  constraint on (flight, row, seat) with an \<open>IntegrityError\<close>.  Every stateful operation
  returns the store it leaves behind together with its result.
\<close>

definition Model_save :: "store \<Rightarrow> Ticket \<Rightarrow> store \<times> unit result" where
  "Model_save db self =
     (if seat_taken db self then (db, Inl IntegrityError)
      else (db\<lparr>tickets := tickets db @ [self]\<rparr>, Inr ()))"

definition Ticket_save :: "store \<Rightarrow> Ticket \<Rightarrow> store \<times> unit result" where
  "Ticket_save db self =
     (case full_clean db self of
        Inl e \<Rightarrow> (db, Inl e)
      | Inr _ \<Rightarrow> Model_save db self)"

text \<open>
  The two statements of \<open>Ticket.save\<close> with a write of another request committed between
  them: \<open>full_clean\<close> reads the store before that write, the INSERT meets the store after
  it.  No \<open>try\<close> surrounds the INSERT, here or in the callers.
\<close>

definition Ticket_save_racing :: "(store \<Rightarrow> store) \<Rightarrow> store \<Rightarrow> Ticket \<Rightarrow> store \<times> unit result" where
  "Ticket_save_racing other db self =
     (case full_clean db self of
        Inl e \<Rightarrow> (db, Inl e)
      | Inr _ \<Rightarrow> Model_save (other db) self)"


text \<open>\<open>Ticket.objects.create(order=order, **ticket_data)\<close>: build the instance, save it.\<close>

definition Ticket_init :: "Order \<Rightarrow> ticket_attrs \<Rightarrow> Ticket" where
  "Ticket_init order' ticket_data =
     \<lparr>row = attrs_row ticket_data, seat = attrs_seat ticket_data,
      flight = attrs_flight ticket_data, order = order'\<rparr>"

definition Ticket_objects_create :: "store \<Rightarrow> Order \<Rightarrow> ticket_attrs \<Rightarrow> store \<times> Ticket result" where
  "Ticket_objects_create db order' ticket_data =
     (let obj = Ticket_init order' ticket_data
      in case Ticket_save db obj of
           (db', Inl e) \<Rightarrow> (db', Inl e)
         | (db', Inr _) \<Rightarrow> (db', Inr obj))"

section \<open>Order creation (OrderSerializer.create)\<close>

text \<open>
  The value stored under \<open>user\<close> in \<open>validated_data\<close> is either a user object or a bare
  primary key.  Assigning anything but a user object to the foreign key \<open>Order.user\<close>
  raises \<open>ValueError\<close> when the \<open>Order\<close> is constructed.  The new row's primary key and
  the \<open>auto_now_add\<close> timestamp are supplied by the database and the clock.
\<close>

record User =
  user_pk :: nat
  is_staff :: bool

datatype user_value = Instance User | Pk nat

definition Order_objects_create ::
  "nat \<Rightarrow> nat \<Rightarrow> store \<Rightarrow> user_value \<Rightarrow> store \<times> Order result" where
  "Order_objects_create new_pk now db user' =
     (case user' of
        Pk _ \<Rightarrow> (db, Inl ValueError)
      | Instance u \<Rightarrow>
          (let obj = \<lparr>order_id = new_pk, created_at = now, user = user_pk u\<rparr>
           in (db\<lparr>orders := orders db @ [obj]\<rparr>, Inr obj)))"

text \<open>
  \<open>validated_data\<close> is a dictionary: the key \<open>tickets\<close> may be absent, and then
  \<open>validated_data.pop("tickets")\<close> raises \<open>KeyError\<close>.
\<close>

record order_validated_data =
  vd_tickets :: "ticket_attrs list option"
  vd_user :: user_value

text \<open>The \<open>for ticket_data in tickets_data\<close> loop: the first exception ends it.\<close>

fun create_tickets :: "store \<Rightarrow> Order \<Rightarrow> ticket_attrs list \<Rightarrow> store \<times> unit result" where
  "create_tickets db order' [] = (db, Inr ())"
| "create_tickets db order' (ticket_data # rest) =
     (case Ticket_objects_create db order' ticket_data of
        (db', Inl e) \<Rightarrow> (db', Inl e)
      | (db', Inr _) \<Rightarrow> create_tickets db' order' rest)"

definition create_body ::
  "nat \<Rightarrow> nat \<Rightarrow> order_validated_data \<Rightarrow> store \<Rightarrow> store \<times> Order result" where
  "create_body new_pk now validated_data db =
     (case vd_tickets validated_data of
        None \<Rightarrow> (db, Inl (KeyError ''tickets''))
      | Some tickets_data \<Rightarrow>
          (case Order_objects_create new_pk now db (vd_user validated_data) of
             (db1, Inl e) \<Rightarrow> (db1, Inl e)
           | (db1, Inr order') \<Rightarrow>
               (case create_tickets db1 order' tickets_data of
                  (db2, Inl e) \<Rightarrow> (db2, Inl e)
                | (db2, Inr _) \<Rightarrow> (db2, Inr order'))))"

text \<open>
  \<open>with transaction.atomic():\<close> an exception leaving the block rolls the store back to
  what it was on entry and propagates; a normal exit commits.
\<close>

definition atomic :: "store \<Rightarrow> (store \<Rightarrow> store \<times> 'a result) \<Rightarrow> store \<times> 'a result" where
  "atomic db body =
     (case body db of
        (db', Inl e) \<Rightarrow> (db, Inl e)
      | (db', Inr r) \<Rightarrow> (db', Inr r))"

definition OrderSerializer_create ::
  "nat \<Rightarrow> nat \<Rightarrow> store \<Rightarrow> order_validated_data \<Rightarrow> store \<times> Order result" where
  "OrderSerializer_create new_pk now db validated_data =
     atomic db (create_body new_pk now validated_data)"

section \<open>Views (airport/views.py)\<close>

text \<open>A request carries the authenticated user, or none for an anonymous caller.\<close>

record request =
  request_user :: "User option"

subsection \<open>OrderViewSet\<close>

text \<open>
  The keyword arguments of the \<open>tickets\<close> field of \<open>OrderSerializer\<close>, as declared:
  \<open>TicketSerializer(many=True, read_only=True, allow_empty=True)\<close>.
\<close>

record field_kwargs =
  many :: bool
  read_only :: bool
  allow_empty :: bool

definition OrderSerializer_tickets :: field_kwargs where
  "OrderSerializer_tickets = \<lparr>many = True, read_only = True, allow_empty = True\<rparr>"

text \<open>
  A \<open>TicketSerializer\<close> run on input.  One submitted item names row and seat and gives
  the flight and the order by primary key (the serializer's fields are \<open>id\<close>, \<open>row\<close>,
  \<open>seat\<close>, \<open>flight\<close>, \<open>order\<close>).  Field validation comes first: each key is looked up in
  its table, and the errors of all fields are raised together.  Then the validators of the
  serializer run; for a model with \<open>unique_together\<close> the framework generates a
  \<open>UniqueTogetherValidator\<close> over (flight, row, seat), whose error is a non-field error.
  \<open>validate()\<close>, with the range checks, runs last.
\<close>

record ticket_input =
  input_row :: int
  input_seat :: int
  input_flight :: nat
  input_order :: nat

definition invalid_pk_message :: "nat \<Rightarrow> string" where
  "invalid_pk_message pk = ''Invalid pk \"'' @ str_nat pk @ ''\" - object does not exist.''"

definition TicketSerializer_to_internal_value ::
  "store \<Rightarrow> ticket_input \<Rightarrow> (ticket_attrs \<times> Order) result" where
  "TicketSerializer_to_internal_value db data =
     (case (find (\<lambda>f. flight_id f = input_flight data) (flights db),
            find (\<lambda>obj. order_id obj = input_order data) (orders db)) of
        (Some f, Some obj) \<Rightarrow>
          Inr (\<lparr>attrs_row = input_row data, attrs_seat = input_seat data, attrs_flight = f\<rparr>,
               obj)
      | (Some f, None) \<Rightarrow>
          Inl (DRFValidationError [(''order'', invalid_pk_message (input_order data))])
      | (None, Some obj) \<Rightarrow>
          Inl (DRFValidationError [(''flight'', invalid_pk_message (input_flight data))])
      | (None, None) \<Rightarrow>
          Inl (DRFValidationError
                 [(''flight'', invalid_pk_message (input_flight data)),
                  (''order'', invalid_pk_message (input_order data))]))"

definition unique_set_message :: string where
  "unique_set_message = ''The fields flight, row, seat must make a unique set.''"

definition UniqueTogetherValidator :: "store \<Rightarrow> ticket_attrs \<times> Order \<Rightarrow> unit result" where
  "UniqueTogetherValidator db attrs =
     (if seat_taken db (Ticket_init (snd attrs) (fst attrs))
      then Inl (DRFValidationError [(''non_field_errors'', unique_set_message)])
      else Inr ())"

definition TicketSerializer_run_validation ::
  "store \<Rightarrow> ticket_input \<Rightarrow> (ticket_attrs \<times> Order) result" where
  "TicketSerializer_run_validation db data =
     (case TicketSerializer_to_internal_value db data of
        Inl e \<Rightarrow> Inl e
      | Inr value \<Rightarrow>
          (case UniqueTogetherValidator db value of
             Inl e \<Rightarrow> Inl e
           | Inr _ \<Rightarrow>
               (case TicketSerializer_validate (fst value) of
                  Inl e \<Rightarrow> Inl e
                | Inr attrs \<Rightarrow> Inr (attrs, snd value))))"

text \<open>
  What the serializer puts under \<open>tickets\<close> in its validated data, from the list submitted
  in the request body (if any).  A read-only field is never taken from the input: its key
  is absent from the validated data.  A writable list field is required, refuses an empty
  list unless \<open>allow_empty\<close>, and runs the \<open>TicketSerializer\<close> on every item (the model
  keeps the error of the first item that fails).  A validated item also holds the order it
  named; \<open>create()\<close> is handed the items and fails at \<open>Order.objects.create\<close>, before it
  uses any of them, because the view passes the user's bare key.
\<close>

fun validate_items :: "store \<Rightarrow> ticket_input list \<Rightarrow> ticket_attrs list result" where
  "validate_items db [] = Inr []"
| "validate_items db (item # rest) =
     (case TicketSerializer_run_validation db item of
        Inl e \<Rightarrow> Inl e
      | Inr data \<Rightarrow>
          (case validate_items db rest of
             Inl e \<Rightarrow> Inl e
           | Inr datas \<Rightarrow> Inr (fst data # datas)))"

definition validated_tickets ::
  "field_kwargs \<Rightarrow> store \<Rightarrow> ticket_input list option \<Rightarrow> ticket_attrs list option result" where
  "validated_tickets kwargs db submitted =
     (if read_only kwargs then Inr None
      else case submitted of
        None \<Rightarrow> Inl (DRFValidationError [(''tickets'', ''This field is required.'')])
      | Some items \<Rightarrow>
          if items = [] \<and> \<not> allow_empty kwargs
          then Inl (DRFValidationError [(''tickets'', ''This list may not be empty.'')])
          else (case validate_items db items of
                  Inl e \<Rightarrow> Inl e
                | Inr datas \<Rightarrow> Inr (Some datas)))"

text \<open>
  \<open>OrderViewSet.create\<close>: the permission class \<open>IsAuthenticated\<close>, the serializer's
  validation, then \<open>perform_create\<close>, which calls
  \<open>serializer.save(user=self.request.user.pk)\<close>: the validated data extended with the
  user's primary key goes to \<open>OrderSerializer.create\<close>.
\<close>

definition OrderViewSet_create ::
  "nat \<Rightarrow> nat \<Rightarrow> store \<Rightarrow> request \<Rightarrow> ticket_input list option \<Rightarrow> store \<times> Order result" where
  "OrderViewSet_create new_pk now db req submitted =
     (case request_user req of
        None \<Rightarrow> (db, Inl NotAuthenticated)
      | Some u \<Rightarrow>
          (case validated_tickets OrderSerializer_tickets db submitted of
             Inl e \<Rightarrow> (db, Inl e)
           | Inr tickets_data \<Rightarrow>
               OrderSerializer_create new_pk now db
                 \<lparr>vd_tickets = tickets_data, vd_user = Pk (user_pk u)\<rparr>))"

text \<open>
  \<open>OrderViewSet.get_queryset\<close>: \<open>Order.objects.filter(user=self.request.user.pk)\<close>, in the
  default ordering of \<open>Order.Meta\<close>, \<open>-created_at\<close>: newest first (orders created at the
  same instant keep the order of the table, which the database leaves open).
\<close>

definition OrderViewSet_get_queryset :: "store \<Rightarrow> User \<Rightarrow> Order list" where
  "OrderViewSet_get_queryset db u =
     sort_key (\<lambda>obj. - int (created_at obj)) (filter (\<lambda>obj. user obj = user_pk u) (orders db))"

text \<open>
  \<open>OrderPagination\<close>: a \<open>PageNumberPagination\<close> with \<open>page_size = 10\<close> (\<open>max_page_size\<close>
  has no effect, as no query parameter for the page size is configured).  The query
  parameter \<open>page\<close> is absent, a number, the word \<open>last\<close> or something else; the number
  of pages is at least one, and a page that does not exist is answered with \<open>NotFound\<close>.
\<close>

datatype page_param = No_page | Page_number int | Last_page | Not_a_number

definition page_size :: nat where
  "page_size = 10"

definition num_pages :: "nat \<Rightarrow> nat" where
  "num_pages count = (max 1 count + page_size - 1) div page_size"

definition paginate_queryset :: "page_param \<Rightarrow> 'a list \<Rightarrow> 'a list result" where
  "paginate_queryset page queryset =
     (case (case page of
              No_page \<Rightarrow> Some 1
            | Page_number n \<Rightarrow> Some n
            | Last_page \<Rightarrow> Some (int (num_pages (length queryset)))
            | Not_a_number \<Rightarrow> None) of
        None \<Rightarrow> Inl NotFound
      | Some number \<Rightarrow>
          if number < 1 \<or> int (num_pages (length queryset)) < number then Inl NotFound
          else Inr (take page_size (drop ((nat number - 1) * page_size) queryset)))"

text \<open>
  \<open>OrderViewSet.list\<close>: the permission class \<open>IsAuthenticated\<close> answers an anonymous
  request before any query is made; otherwise the response holds the page asked for (of
  the paginated response the \<open>results\<close> are kept).
\<close>

definition OrderViewSet_list :: "store \<Rightarrow> request \<Rightarrow> page_param \<Rightarrow> Order list result" where
  "OrderViewSet_list db req page =
     (case request_user req of
        None \<Rightarrow> Inl NotAuthenticated
      | Some u \<Rightarrow> paginate_queryset page (OrderViewSet_get_queryset db u))"

subsection \<open>FlightViewSet\<close>

text \<open>
  The annotation of \<open>FlightViewSet.queryset\<close>:
  \<open>F("airplane__rows") * F("airplane__seats_in_row") - Count("tickets")\<close>, evaluated for
  a flight against the rows of the ticket table that refer to it.
\<close>

definition count_tickets :: "store \<Rightarrow> Flight \<Rightarrow> nat" where
  "count_tickets db f = length (filter (\<lambda>t. flight_id (flight t) = flight_id f) (tickets db))"

definition tickets_available :: "store \<Rightarrow> Flight \<Rightarrow> int" where
  "tickets_available db f =
     rows (airplane f) * seats_in_row (airplane f) - int (count_tickets db f)"

definition FlightViewSet_queryset :: "store \<Rightarrow> (Flight \<times> int) list" where
  "FlightViewSet_queryset db = map (\<lambda>f. (f, tickets_available db f)) (flights db)"

text \<open>
  \<open>FlightViewSet.queryset\<close> is a class attribute: one \<open>QuerySet\<close> object, shared by all
  the requests that the process serves.  A \<open>QuerySet\<close> is lazy: iterating it runs the query
  on the store and keeps the rows in the object (its result cache), and iterating it again
  returns the rows kept, without a query.  \<open>filter(...)\<close> returns a new \<open>QuerySet\<close> with
  the lookup added and no rows kept.  So a query set is either the class attribute itself
  or a filtered copy of it, and the state of the process holds the result cache of the
  class attribute.
\<close>

datatype lookup = Departure_time_date nat | Route_id int

datatype QuerySet = Class_attribute | Filtered "lookup list"

fun QuerySet_filter :: "QuerySet \<Rightarrow> lookup \<Rightarrow> QuerySet" where
  "QuerySet_filter Class_attribute l = Filtered [l]"
| "QuerySet_filter (Filtered ls) l = Filtered (ls @ [l])"

type_synonym result_cache = "(Flight \<times> int) list option"

fun matches :: "Flight \<Rightarrow> lookup \<Rightarrow> bool" where
  "matches f (Departure_time_date date) \<longleftrightarrow> fst (departure_time f) = date"
| "matches f (Route_id route_id) \<longleftrightarrow> int (route f) = route_id"

definition run_query :: "store \<Rightarrow> lookup list \<Rightarrow> (Flight \<times> int) list" where
  "run_query db ls = filter (\<lambda>instance. list_all (matches (fst instance)) ls)
     (FlightViewSet_queryset db)"

fun iterate :: "store \<Rightarrow> result_cache \<Rightarrow> QuerySet \<Rightarrow> result_cache \<times> (Flight \<times> int) list" where
  "iterate db None Class_attribute = (Some (run_query db []), run_query db [])"
| "iterate db (Some kept) Class_attribute = (Some kept, kept)"
| "iterate db cache (Filtered ls) = (cache, run_query db ls)"

text \<open>
  \<open>FlightViewSet.get_queryset\<close>: it starts from \<open>self.queryset\<close>, the class attribute itself
  (not a copy of it, as the inherited \<open>get_queryset\<close> would take with \<open>.all()\<close>), and the
  optional query parameters \<open>departure_time\<close> and \<open>route\<close> filter it.  Parsing the date
  (\<open>datetime.strptime(..., "%Y-%m-%d").date()\<close>) and the route key (\<open>int(...)\<close>) is left
  to the two functions given; a parameter that does not parse raises \<open>ValueError\<close>.  A
  parameter that is absent or empty is falsy and filters nothing.
\<close>

record query_params =
  qp_departure_time :: "string option"
  qp_route :: "string option"

definition given :: "string option \<Rightarrow> string option" where
  "given p = (case p of None \<Rightarrow> None | Some v \<Rightarrow> if v = [] then None else Some v)"

definition FlightViewSet_get_queryset ::
  "(string \<Rightarrow> nat option) \<Rightarrow> (string \<Rightarrow> int option) \<Rightarrow> query_params \<Rightarrow> QuerySet result" where
  "FlightViewSet_get_queryset strptime_date int_of params =
     (let queryset = Class_attribute in
      case (case given (qp_departure_time params) of
              None \<Rightarrow> Inr queryset
            | Some departure_time' \<Rightarrow>
                (case strptime_date departure_time' of
                   None \<Rightarrow> Inl ValueError
                 | Some date \<Rightarrow> Inr (QuerySet_filter queryset (Departure_time_date date)))) of
        Inl e \<Rightarrow> Inl e
      | Inr queryset \<Rightarrow>
          (case given (qp_route params) of
             None \<Rightarrow> Inr queryset
           | Some route_id_str \<Rightarrow>
               (case int_of route_id_str of
                  None \<Rightarrow> Inl ValueError
                | Some route_id \<Rightarrow> Inr (QuerySet_filter queryset (Route_id route_id)))))"

text \<open>
  One item of the flight list, as \<open>FlightListSerializer\<close> renders it (the fields that
  depend on seats): \<open>airplane_capacity\<close> reads \<open>airplane.capacity\<close>, and
  \<open>tickets_available\<close> the annotation.
\<close>

record flight_list_item =
  item_id :: nat
  item_airplane_name :: string
  item_airplane_capacity :: int
  item_tickets_available :: int

definition FlightListSerializer :: "Flight \<times> int \<Rightarrow> flight_list_item" where
  "FlightListSerializer instance =
     \<lparr>item_id = flight_id (fst instance),
      item_airplane_name = name (airplane (fst instance)),
      item_airplane_capacity = capacity (airplane (fst instance)),
      item_tickets_available = snd instance\<rparr>"

text \<open>
  \<open>FlightViewSet.list\<close>: the query set of \<open>get_queryset\<close> is serialized by iterating it.
  The view sets no pagination class, and the list responses of the test suite are plain
  lists, so no page is cut out of the query set first.  The operation returns the result
  cache of the class attribute as the request leaves it.
\<close>

definition FlightViewSet_list ::
  "(string \<Rightarrow> nat option) \<Rightarrow> (string \<Rightarrow> int option) \<Rightarrow> store \<Rightarrow> result_cache \<Rightarrow> query_params
     \<Rightarrow> result_cache \<times> flight_list_item list result" where
  "FlightViewSet_list strptime_date int_of db cache params =
     (case FlightViewSet_get_queryset strptime_date int_of params of
        Inl e \<Rightarrow> (cache, Inl e)
      | Inr queryset \<Rightarrow>
          (case iterate db cache queryset of
             (cache', instances) \<Rightarrow> (cache', Inr (map FlightListSerializer instances))))"

text \<open>
  Creating and deleting a flight (\<open>FlightViewSet\<close> is a \<open>ModelViewSet\<close>).  The foreign key
  \<open>Ticket.flight\<close> has \<open>on_delete=CASCADE\<close>: deleting a flight deletes its tickets.
\<close>

definition Flight_objects_create :: "store \<Rightarrow> Flight \<Rightarrow> store" where
  "Flight_objects_create db f = db\<lparr>flights := flights db @ [f]\<rparr>"

definition Flight_delete :: "store \<Rightarrow> nat \<Rightarrow> store" where
  "Flight_delete db pk =
     db\<lparr>flights := filter (\<lambda>f. flight_id f \<noteq> pk) (flights db),
        tickets := filter (\<lambda>t. flight_id (flight t) \<noteq> pk) (tickets db)\<rparr>"

text \<open>
  The foreign key \<open>Ticket.order\<close> has \<open>on_delete=CASCADE\<close> too: deleting an order deletes
  its tickets.
\<close>

definition Order_delete :: "store \<Rightarrow> nat \<Rightarrow> store" where
  "Order_delete db pk =
     db\<lparr>orders := filter (\<lambda>obj. order_id obj \<noteq> pk) (orders db),
        tickets := filter (\<lambda>t. order_id (order t) \<noteq> pk) (tickets db)\<rparr>"

subsection \<open>AirplaneViewSet\<close>

text \<open>
  Modelled from the spec: the permission class \<open>IsAuthenticatedOrIsAdminReadOnly\<close> of
  \<open>airport/permissions.py\<close>, which is not among the files.  The specification speaks of
  role-based read and write permissions, and the test suite fixes what the class does on
  the airplane endpoint: an anonymous request is answered with 401, a write by an
  authenticated user who is not staff with 403, a write by a staff user is let through.
\<close>

definition IsAuthenticatedOrIsAdminReadOnly_write :: "request \<Rightarrow> unit result" where
  "IsAuthenticatedOrIsAdminReadOnly_write req =
     (case request_user req of
        None \<Rightarrow> Inl NotAuthenticated
      | Some u \<Rightarrow> if is_staff u then Inr () else Inl PermissionDenied)"

text \<open>
  Validation by \<open>AirplaneSerializer\<close>.  \<open>name\<close> is a \<open>CharField(max_length=255)\<close>: blank
  or longer names are refused; \<open>airplane_type\<close> must be the key of an airplane type.  The
  errors of all fields are raised together.  \<open>rows\<close> and \<open>seats_in_row\<close> are declared as
  plain \<open>IntegerField()\<close>: no validator looks at their sign.
\<close>

definition AirplaneSerializer_is_valid :: "store \<Rightarrow> Airplane \<Rightarrow> unit result" where
  "AirplaneSerializer_is_valid db data =
     (let errors =
        (if name data = [] then [(''name'', ''This field may not be blank.'')]
         else if length (name data) > 255
         then [(''name'', ''Ensure this field has no more than 255 characters.'')]
         else [])
        @ (if airplane_type data \<in> set (airplane_types db) then []
           else [(''airplane_type'', invalid_pk_message (airplane_type data))])
      in if errors \<noteq> [] then Inl (DRFValidationError errors) else Inr ())"

text \<open>
  \<open>Airplane.objects.create(**validated_data)\<close>: the INSERT, which raises \<open>OverflowError\<close>
  for an integer that does not fit the column.  The primary key is the database's.
\<close>

definition fits_integer_column :: "int \<Rightarrow> bool" where
  "fits_integer_column i \<longleftrightarrow> - (2 ^ 63) \<le> i \<and> i < 2 ^ 63"

definition Airplane_objects_create :: "store \<Rightarrow> Airplane \<Rightarrow> store \<times> Airplane result" where
  "Airplane_objects_create db data =
     (if fits_integer_column (rows data) \<and> fits_integer_column (seats_in_row data)
      then (db\<lparr>airplanes := airplanes db @ [data]\<rparr>, Inr data)
      else (db, Inl OverflowError))"

definition AirplaneViewSet_create :: "store \<Rightarrow> request \<Rightarrow> Airplane \<Rightarrow> store \<times> Airplane result" where
  "AirplaneViewSet_create db req data =
     (case IsAuthenticatedOrIsAdminReadOnly_write req of
        Inl e \<Rightarrow> (db, Inl e)
      | Inr _ \<Rightarrow>
          (case AirplaneSerializer_is_valid db data of
             Inl e \<Rightarrow> (db, Inl e)
           | Inr _ \<Rightarrow> Airplane_objects_create db data))"

text \<open>Creating an airplane type adds its key to the table.\<close>

definition AirplaneType_objects_create :: "store \<Rightarrow> nat \<Rightarrow> store" where
  "AirplaneType_objects_create db pk = db\<lparr>airplane_types := airplane_types db @ [pk]\<rparr>"

section \<open>Reachable stores\<close>

text \<open>
  The stores that the operations above can produce from the empty one, whatever their
  arguments and whether they succeed or fail.
\<close>

inductive reachable :: "store \<Rightarrow> bool" where
  reachable_empty: "reachable empty_store"
| reachable_airplane_type: "reachable db \<Longrightarrow> reachable (AirplaneType_objects_create db pk)"
| reachable_airplane:
    "reachable db \<Longrightarrow> AirplaneViewSet_create db req data = (db', r) \<Longrightarrow> reachable db'"
| reachable_flight: "reachable db \<Longrightarrow> reachable (Flight_objects_create db f)"
| reachable_flight_delete: "reachable db \<Longrightarrow> reachable (Flight_delete db pk)"
| reachable_order_delete: "reachable db \<Longrightarrow> reachable (Order_delete db pk)"
| reachable_ticket: "reachable db \<Longrightarrow> Ticket_save db t = (db', r) \<Longrightarrow> reachable db'"
| reachable_ticket_racing:
    "reachable db \<Longrightarrow> reachable (other db) \<Longrightarrow> Ticket_save_racing other db t = (db', r)
       \<Longrightarrow> reachable db'"
| reachable_order:
    "reachable db \<Longrightarrow> OrderSerializer_create new_pk now db validated_data = (db', r)
       \<Longrightarrow> reachable db'"
| reachable_order_view:
    "reachable db \<Longrightarrow> OrderViewSet_create new_pk now db req submitted = (db', r)
       \<Longrightarrow> reachable db'"

text \<open>Invariant B: no two stored tickets of one flight share (row, seat).\<close>

definition seat_key :: "Ticket \<Rightarrow> nat \<times> int \<times> int" where
  "seat_key t = (flight_id (flight t), row t, seat t)"

definition seats_unique :: "store \<Rightarrow> bool" where
  "seats_unique db = distinct (map seat_key (tickets db))"

text \<open>
  Two notions for speaking of a request inside a batch.  The requests of a list all pass
  when each is in range and asks for a seat that is free in the store, and no two of them
  ask for the same seat; the store after them holds a ticket for each.  In a batch
  \<open>pre @ td # post\<close> whose requests \<open>pre\<close> pass, \<open>td\<close> is the first request that can fail,
  and it meets the store after \<open>pre\<close>.
\<close>

definition requests_pass :: "store \<Rightarrow> Order \<Rightarrow> ticket_attrs list \<Rightarrow> bool" where
  "requests_pass db ord pre \<longleftrightarrow>
     list_all (\<lambda>p. isValidSeat (airplane (attrs_flight p)) (attrs_row p) (attrs_seat p)
                  \<and> \<not> seat_taken db (Ticket_init ord p)) pre
     \<and> distinct (map (\<lambda>p. seat_key (Ticket_init ord p)) pre)"

definition after_requests :: "store \<Rightarrow> Order \<Rightarrow> ticket_attrs list \<Rightarrow> store" where
  "after_requests db ord pre = db\<lparr>tickets := tickets db @ map (Ticket_init ord) pre\<rparr>"

section \<open>Sample objects\<close>

text \<open>
  The airplane of the test suite (\<open>sample_airplane\<close>: 8 rows of 2 seats), a flight on it,
  a user with an order, and tickets for that flight.
\<close>

definition sample_airplane :: Airplane where
  "sample_airplane =
     \<lparr>airplane_id = 1, name = ''testairplane'', rows = 8, seats_in_row = 2, airplane_type = 1\<rparr>"

definition sample_flight :: Flight where
  "sample_flight =
     \<lparr>flight_id = 1, route = 1, airplane = sample_airplane,
      departure_time = (20240101, 0), arrival_time = (20240101, 7200)\<rparr>"

definition sample_user :: User where
  "sample_user = \<lparr>user_pk = 1, is_staff = False\<rparr>"

definition sample_order :: Order where
  "sample_order = \<lparr>order_id = 1, created_at = 0, user = 1\<rparr>"

definition sample_ticket :: "int \<Rightarrow> int \<Rightarrow> Ticket" where
  "sample_ticket r s = \<lparr>row = r, seat = s, flight = sample_flight, order = sample_order\<rparr>"

definition sample_attrs :: "int \<Rightarrow> int \<Rightarrow> ticket_attrs" where
  "sample_attrs r s = \<lparr>attrs_row = r, attrs_seat = s, attrs_flight = sample_flight\<rparr>"

text \<open>
  The second airplane of the test suite (3 rows of 5 seats), and the sample flight after
  it has been moved to that airplane; an order of another user; an airplane with negative
  dimensions and a flight on it.
\<close>

definition second_airplane :: Airplane where
  "second_airplane =
     \<lparr>airplane_id = 2, name = ''ertbtr'', rows = 3, seats_in_row = 5, airplane_type = 2\<rparr>"

definition moved_flight :: Flight where
  "moved_flight = sample_flight\<lparr>airplane := second_airplane\<rparr>"

definition other_order :: Order where
  "other_order = \<lparr>order_id = 2, created_at = 1, user = 2\<rparr>"

text \<open>
  A store with the sample flight listed, and parsers for the two query parameters that
  know one date and one route key.
\<close>

definition listed_store :: store where
  "listed_store = empty_store\<lparr>flights := [sample_flight]\<rparr>"

definition sample_strptime :: "string \<Rightarrow> nat option" where
  "sample_strptime s = (if s = ''2024-01-01'' then Some 20240101 else None)"

definition sample_int :: "string \<Rightarrow> int option" where
  "sample_int s = (if s = ''1'' then Some 1 else None)"

text \<open>
  A request for row 8, seat 1 of the moved flight: out of range on the 3 by 5 airplane,
  and taken when a ticket for that seat was sold before the move.
\<close>

definition moved_ticket :: Ticket where
  "moved_ticket = \<lparr>row = 8, seat = 1, flight = moved_flight, order = other_order\<rparr>"

definition moved_attrs :: ticket_attrs where
  "moved_attrs = \<lparr>attrs_row = 8, attrs_seat = 1, attrs_flight = moved_flight\<rparr>"

text \<open>
  The same request as input of a \<open>TicketSerializer\<close>, on a store that has the moved flight,
  the order named and the ticket sold before the move.
\<close>

definition moved_input :: ticket_input where
  "moved_input = \<lparr>input_row = 8, input_seat = 1, input_flight = 1, input_order = 2\<rparr>"

definition moved_store :: store where
  "moved_store =
     empty_store\<lparr>flights := [moved_flight], orders := [other_order],
                 tickets := [sample_ticket 8 1]\<rparr>"








definition moved_batch :: order_validated_data where
  "moved_batch =
     \<lparr>vd_tickets = Some ([sample_attrs 3 2] @ moved_attrs # [sample_attrs 3 1]),
      vd_user = Instance sample_user\<rparr>"

definition duplicate_batch :: order_validated_data where
  "duplicate_batch =
     \<lparr>vd_tickets = Some [sample_attrs 3 1, sample_attrs 3 2],
      vd_user = Instance sample_user\<rparr>"

section \<open>Auxiliary facts\<close>

lemma getattr_rows [simp]: "getattr a ''rows'' = Inr (rows a)"
  by (simp add: getattr_def)

lemma getattr_seats [simp]: "getattr a ''seats_in_row'' = Inr (seats_in_row a)"
  by (simp add: getattr_def)

lemma validate_ticket_ok_iff:
  "validate_ticket r s a e = Inr () \<longleftrightarrow> isValidSeat a r s"
  by (auto simp: validate_ticket_def isValidSeat_def)

lemma validate_ticket_row_error:
  "\<not> (1 \<le> r \<and> r \<le> rows a) \<Longrightarrow>
   validate_ticket r s a e = Inl (e [(''row'', range_message ''row'' ''rows'' (rows a))])"
  by (simp add: validate_ticket_def)

lemma validate_ticket_seat_error:
  "1 \<le> r \<Longrightarrow> r \<le> rows a \<Longrightarrow> \<not> (1 \<le> s \<and> s \<le> seats_in_row a) \<Longrightarrow>
   validate_ticket r s a e = Inl (e [(''seat'', range_message ''seat'' ''seats_in_row'' (seats_in_row a))])"
  by (simp add: validate_ticket_def)

text \<open>What \<open>validate_ticket\<close> and \<open>full_clean\<close> return, case by case.\<close>

lemma validate_ticket_cases:
  "validate_ticket r s a e =
     (if \<not> (1 \<le> r \<and> r \<le> rows a)
      then Inl (e [(''row'', range_message ''row'' ''rows'' (rows a))])
      else if \<not> (1 \<le> s \<and> s \<le> seats_in_row a)
      then Inl (e [(''seat'', range_message ''seat'' ''seats_in_row'' (seats_in_row a))])
      else Inr ())"
  by (simp add: validate_ticket_def)

lemma clean_ok_iff: "clean t = Inr () \<longleftrightarrow> isValidSeat (airplane (flight t)) (row t) (seat t)"
  by (simp add: clean_def validate_ticket_ok_iff)

lemma full_clean_cases:
  "full_clean db t =
     (if \<not> (1 \<le> row t \<and> row t \<le> rows (airplane (flight t)))
      then Inl (DjangoValidationError
                 [(''row'', range_message ''row'' ''rows'' (rows (airplane (flight t))))])
      else if \<not> (1 \<le> seat t \<and> seat t \<le> seats_in_row (airplane (flight t)))
      then Inl (DjangoValidationError
                 [(''seat'', range_message ''seat'' ''seats_in_row''
                     (seats_in_row (airplane (flight t))))])
      else if seat_taken db t then Inl (DjangoValidationError [(''__all__'', unique_message)])
      else Inr ())"
  by (simp add: full_clean_def clean_def validate_ticket_cases validate_unique_def
      unique_together_def)

lemma full_clean_ok_iff:
  "full_clean db t = Inr () \<longleftrightarrow>
     isValidSeat (airplane (flight t)) (row t) (seat t) \<and> \<not> seat_taken db t"
  by (auto simp: full_clean_cases isValidSeat_def)

lemma Ticket_save_cases:
  "Ticket_save db t =
     (case full_clean db t of
        Inl e \<Rightarrow> (db, Inl e)
      | Inr _ \<Rightarrow> (db\<lparr>tickets := tickets db @ [t]\<rparr>, Inr ()))"
proof (cases "full_clean db t")
  case (Inl e)
  then show ?thesis by (simp add: Ticket_save_def)
next
  case (Inr u)
  then have "full_clean db t = Inr ()" by simp
  then have "\<not> seat_taken db t" by (simp add: full_clean_ok_iff)
  with Inr show ?thesis by (simp add: Ticket_save_def Model_save_def)
qed

lemma seat_taken_iff: "seat_taken db t \<longleftrightarrow> seat_key t \<in> seat_key ` set (tickets db)"
  by (auto simp: seat_taken_def list_ex_iff same_seat_def seat_key_def)

lemma Model_save_unique:
  "seats_unique db \<Longrightarrow> seats_unique (fst (Model_save db t))"
  by (auto simp: Model_save_def seats_unique_def seat_taken_iff)

lemma Model_save_error: "snd (Model_save db t) = Inl e \<Longrightarrow> fst (Model_save db t) = db"
  by (auto simp: Model_save_def split: if_splits)

lemma Ticket_save_unique:
  "seats_unique db \<Longrightarrow> seats_unique (fst (Ticket_save db t))"
  by (auto simp: Ticket_save_def Model_save_unique split: sum.splits)

lemma Ticket_save_racing_unique:
  "seats_unique db \<Longrightarrow> seats_unique (other db) \<Longrightarrow> seats_unique (fst (Ticket_save_racing other db t))"
  by (auto simp: Ticket_save_racing_def Model_save_unique split: sum.splits)

lemma Ticket_objects_create_fst:
  "fst (Ticket_objects_create db ord td) = fst (Ticket_save db (Ticket_init ord td))"
  by (auto simp: Ticket_objects_create_def Let_def split: prod.splits sum.splits)

lemma Ticket_objects_create_unique:
  "seats_unique db \<Longrightarrow> seats_unique (fst (Ticket_objects_create db ord td))"
  by (simp add: Ticket_objects_create_fst Ticket_save_unique)

lemma create_tickets_unique:
  "seats_unique db \<Longrightarrow> seats_unique (fst (create_tickets db ord tds))"
proof (induction tds arbitrary: db)
  case Nil
  then show ?case by simp
next
  case (Cons td tds)
  from Cons.prems have u: "seats_unique (fst (Ticket_objects_create db ord td))"
    by (rule Ticket_objects_create_unique)
  show ?case
  proof (cases "Ticket_objects_create db ord td")
    case (Pair db' r)
    with u have u': "seats_unique db'" by simp
    show ?thesis
    proof (cases r)
      case (Inl e)
      with Pair u' show ?thesis by simp
    next
      case (Inr x)
      with Pair Cons.IH [OF u'] show ?thesis by simp
    qed
  qed
qed

lemma Order_objects_create_tickets:
  "tickets (fst (Order_objects_create pk now db u)) = tickets db"
  by (simp add: Order_objects_create_def Let_def split: user_value.splits)

lemma seats_unique_cong: "tickets db' = tickets db \<Longrightarrow> seats_unique db' = seats_unique db"
  by (simp add: seats_unique_def)

lemma create_body_unique:
  "seats_unique db \<Longrightarrow> seats_unique (fst (create_body pk now vd db))"
proof (cases "vd_tickets vd")
  case None
  assume "seats_unique db"
  with None show ?thesis by (simp add: create_body_def)
next
  case (Some tds)
  assume u: "seats_unique db"
  obtain db1 r1 where o: "Order_objects_create pk now db (vd_user vd) = (db1, r1)"
    by (cases "Order_objects_create pk now db (vd_user vd)")
  have "tickets db1 = tickets db"
    using Order_objects_create_tickets [of pk now db "vd_user vd"] o by simp
  with u have u1: "seats_unique db1" by (simp add: seats_unique_def)
  show ?thesis
  proof (cases r1)
    case (Inl e)
    with Some o u1 show ?thesis by (simp add: create_body_def)
  next
    case (Inr ord)
    obtain db2 r2 where c: "create_tickets db1 ord tds = (db2, r2)"
      by (cases "create_tickets db1 ord tds")
    with create_tickets_unique [OF u1, of ord tds] have "seats_unique db2" by simp
    with Some o Inr c show ?thesis by (cases r2) (simp_all add: create_body_def)
  qed
qed

lemma atomic_cases: "fst (atomic db body) = db \<or> fst (atomic db body) = fst (body db)"
  by (auto simp: atomic_def split: prod.splits sum.splits)

lemma atomic_error: "snd (atomic db body) = Inl e \<Longrightarrow> fst (atomic db body) = db"
  by (auto simp: atomic_def split: prod.splits sum.splits)

lemma OrderSerializer_create_unique:
  "seats_unique db \<Longrightarrow> seats_unique (fst (OrderSerializer_create pk now db vd))"
  using atomic_cases [of db "create_body pk now vd"] create_body_unique [of db pk now vd]
  by (auto simp: OrderSerializer_create_def)

lemma OrderViewSet_create_unique:
  "seats_unique db \<Longrightarrow> seats_unique (fst (OrderViewSet_create pk now db req sub))"
  by (auto simp: OrderViewSet_create_def OrderSerializer_create_unique split: option.splits sum.splits)

lemma Flight_delete_unique: "seats_unique db \<Longrightarrow> seats_unique (Flight_delete db pk)"
  by (simp add: seats_unique_def Flight_delete_def distinct_map_filter)

lemma Order_delete_unique: "seats_unique db \<Longrightarrow> seats_unique (Order_delete db pk)"
  by (simp add: seats_unique_def Order_delete_def distinct_map_filter)

lemma AirplaneViewSet_create_tickets:
  "tickets (fst (AirplaneViewSet_create db req data)) = tickets db"
  by (simp add: AirplaneViewSet_create_def Airplane_objects_create_def split: sum.splits)

lemma Ticket_save_result:
  "Ticket_save db t =
     (if isValidSeat (airplane (flight t)) (row t) (seat t) \<and> \<not> seat_taken db t
      then (db\<lparr>tickets := tickets db @ [t]\<rparr>, Inr ())
      else (db, full_clean db t))"
proof (cases "full_clean db t")
  case (Inl e)
  then show ?thesis using full_clean_ok_iff [of db t] by (auto simp: Ticket_save_cases)
next
  case (Inr u)
  then show ?thesis using full_clean_ok_iff [of db t] by (auto simp: Ticket_save_cases)
qed

lemma Ticket_objects_create_result:
  "Ticket_objects_create db ord td =
     (if isValidSeat (airplane (attrs_flight td)) (attrs_row td) (attrs_seat td)
         \<and> \<not> seat_taken db (Ticket_init ord td)
      then (db\<lparr>tickets := tickets db @ [Ticket_init ord td]\<rparr>, Inr (Ticket_init ord td))
      else (db, case full_clean db (Ticket_init ord td) of Inl e \<Rightarrow> Inl e | Inr _ \<Rightarrow> Inr (Ticket_init ord td)))"
  by (auto simp: Ticket_objects_create_def Ticket_save_result Let_def Ticket_init_def
      split: sum.splits)

lemma full_clean_isl:
  "isl (full_clean db t) \<longleftrightarrow> \<not> (isValidSeat (airplane (flight t)) (row t) (seat t) \<and> \<not> seat_taken db t)"
  using full_clean_ok_iff [of db t] by (cases "full_clean db t") auto

lemma seat_taken_append:
  "seat_taken (db\<lparr>tickets := tickets db @ [t]\<rparr>) t' \<longleftrightarrow> seat_taken db t' \<or> seat_key t' = seat_key t"
  by (auto simp: seat_taken_iff)

lemma create_tickets_ok_iff:
  "snd (create_tickets db ord tds) = Inr () \<longleftrightarrow>
     (\<forall>td \<in> set tds. isValidSeat (airplane (attrs_flight td)) (attrs_row td) (attrs_seat td)
        \<and> \<not> seat_taken db (Ticket_init ord td))
     \<and> distinct (map (\<lambda>td. seat_key (Ticket_init ord td)) tds)"
proof (induction tds arbitrary: db)
  case Nil
  show ?case by simp
next
  case (Cons td tds)
  show ?case
  proof (cases "isValidSeat (airplane (attrs_flight td)) (attrs_row td) (attrs_seat td)
         \<and> \<not> seat_taken db (Ticket_init ord td)")
    case True
    then have "snd (create_tickets db ord (td # tds))
        = snd (create_tickets (db\<lparr>tickets := tickets db @ [Ticket_init ord td]\<rparr>) ord tds)"
      by (simp add: Ticket_objects_create_result)
    with True show ?thesis
      by (simp add: Cons.IH seat_taken_append image_iff) metis
  next
    case False
    then have "isl (full_clean db (Ticket_init ord td))"
      by (simp add: full_clean_isl Ticket_init_def)
    then obtain e where "full_clean db (Ticket_init ord td) = Inl e"
      by (cases "full_clean db (Ticket_init ord td)") auto
    with False have "snd (create_tickets db ord (td # tds)) = Inl e"
      by (auto simp: Ticket_objects_create_result)
    with False show ?thesis by auto
  qed
qed

lemma create_body_fails:
  assumes "vd_tickets vd = Some tds"
    and "(\<exists>td \<in> set tds. \<not> isValidSeat (airplane (attrs_flight td)) (attrs_row td) (attrs_seat td)
           \<or> seat_taken db (Ticket_init ord td))
         \<or> \<not> distinct (map (\<lambda>td. seat_key (Ticket_init ord td)) tds)"
  shows "isl (snd (create_body pk now vd db))"
proof (cases "vd_user vd")
  case (Pk n)
  with assms(1) show ?thesis by (simp add: create_body_def Order_objects_create_def)
next
  case (Instance u)
  let ?ord = "\<lparr>order_id = pk, created_at = now, user = user_pk u\<rparr>"
  let ?db1 = "db\<lparr>orders := orders db @ [?ord]\<rparr>"
  have k: "\<And>td. seat_key (Ticket_init ?ord td) = seat_key (Ticket_init ord td)"
    by (simp add: seat_key_def Ticket_init_def)
  have t: "\<And>td. seat_taken ?db1 (Ticket_init ?ord td) = seat_taken db (Ticket_init ord td)"
    by (simp add: seat_taken_iff k)
  from assms(2) have "snd (create_tickets ?db1 ?ord tds) \<noteq> Inr ()"
    unfolding create_tickets_ok_iff k t by blast
  then obtain e where "snd (create_tickets ?db1 ?ord tds) = Inl e"
    by (cases "snd (create_tickets ?db1 ?ord tds)") auto
  with assms(1) Instance show ?thesis
    by (auto simp: create_body_def Order_objects_create_def Let_def split: prod.splits sum.splits)
qed

lemma atomic_isl: "isl (snd (atomic db body)) = isl (snd (body db))"
  by (auto simp: atomic_def split: prod.splits sum.splits)

lemma atomic_rollback: "isl (snd (atomic db body)) \<Longrightarrow> fst (atomic db body) = db"
  by (auto simp: atomic_def split: prod.splits sum.splits)

lemma reachable_invariant: "reachable db \<Longrightarrow> seats_unique db"
proof (induction rule: reachable.induct)
  case reachable_empty
  show ?case by (simp add: seats_unique_def empty_store_def)
next
  case (reachable_airplane_type db pk)
  then show ?case by (simp add: seats_unique_def AirplaneType_objects_create_def)
next
  case (reachable_airplane db req data db' r)
  then show ?case
    using AirplaneViewSet_create_tickets [of db req data] by (simp add: seats_unique_def)
next
  case (reachable_flight db f)
  then show ?case by (simp add: seats_unique_def Flight_objects_create_def)
next
  case (reachable_flight_delete db pk)
  then show ?case by (simp add: Flight_delete_unique)
next
  case (reachable_order_delete db pk)
  then show ?case by (simp add: Order_delete_unique)
next
  case (reachable_ticket db t db' r)
  then show ?case using Ticket_save_unique [of db t] by simp
next
  case (reachable_ticket_racing db other t db' r)
  then show ?case using Ticket_save_racing_unique [of db other t] by simp
next
  case (reachable_order db new_pk now validated_data db' r)
  then show ?case using OrderSerializer_create_unique [of db new_pk now validated_data] by simp
next
  case (reachable_order_view db new_pk now req submitted db' r)
  then show ?case using OrderViewSet_create_unique [of db new_pk now req submitted] by simp
qed

lemma seats_unique_nth:
  "seats_unique db \<longleftrightarrow>
     (\<forall>i < length (tickets db). \<forall>j < length (tickets db).
        i \<noteq> j \<longrightarrow> \<not> same_seat (tickets db ! i) (tickets db ! j))"
  by (auto simp: seats_unique_def distinct_conv_nth same_seat_def seat_key_def)

lemma TicketSerializer_validate_ok_iff:
  "TicketSerializer_validate attrs = Inr attrs \<longleftrightarrow>
     isValidSeat (airplane (attrs_flight attrs)) (attrs_row attrs) (attrs_seat attrs)"
  by (auto simp: TicketSerializer_validate_def validate_ticket_cases isValidSeat_def)

lemma Ticket_save_ok_range:
  "snd (Ticket_save db t) = Inr () \<Longrightarrow> isValidSeat (airplane (flight t)) (row t) (seat t)"
  by (cases "full_clean db t") (auto simp: Ticket_save_cases full_clean_ok_iff)

lemma order_ok_range:
  assumes "snd (OrderSerializer_create pk now db vd) = Inr ord"
    and "vd_tickets vd = Some tds" and "td \<in> set tds"
  shows "isValidSeat (airplane (attrs_flight td)) (attrs_row td) (attrs_seat td)"
proof -
  from assms(1) have b: "snd (create_body pk now vd db) = Inr ord"
    by (simp add: OrderSerializer_create_def atomic_def split: prod.splits sum.splits)
  show ?thesis
  proof (cases "vd_user vd")
    case (Pk n)
    with b assms(2) show ?thesis by (simp add: create_body_def Order_objects_create_def)
  next
    case (Instance u)
    let ?ord = "\<lparr>order_id = pk, created_at = now, user = user_pk u\<rparr>"
    let ?db1 = "db\<lparr>orders := orders db @ [?ord]\<rparr>"
    from b assms(2) Instance have "snd (create_tickets ?db1 ?ord tds) = Inr ()"
      by (auto simp: create_body_def Order_objects_create_def Let_def
          split: prod.splits sum.splits)
    with assms(3) show ?thesis by (simp add: create_tickets_ok_iff)
  qed
qed



lemma single_request_order:
  "OrderSerializer_create pk now db \<lparr>vd_tickets = Some [td], vd_user = Instance u\<rparr> =
     (let ord = \<lparr>order_id = pk, created_at = now, user = user_pk u\<rparr>;
          db1 = db\<lparr>orders := orders db @ [ord]\<rparr>
      in case Ticket_objects_create db1 ord td of
           (db2, Inl e) \<Rightarrow> (db, Inl e)
         | (db2, Inr _) \<Rightarrow> (db2, Inr ord))"
  by (simp add: OrderSerializer_create_def atomic_def create_body_def Order_objects_create_def
      Let_def split: prod.splits sum.splits)


lemma range_error_shape:
  "\<not> isValidSeat a r s \<Longrightarrow>
   \<exists>field msg. (field = ''row'' \<or> field = ''seat'')
      \<and> validate_ticket r s a e = Inl (e [(field, msg)])"
  by (auto simp: validate_ticket_cases isValidSeat_def)

lemma full_clean_out_of_range:
  "\<not> isValidSeat (airplane (flight t)) (row t) (seat t) \<Longrightarrow> full_clean db t = clean t"
  by (auto simp: full_clean_cases clean_def validate_ticket_cases isValidSeat_def)

lemma Ticket_save_out_of_range:
  "\<not> isValidSeat (airplane (flight t)) (row t) (seat t) \<Longrightarrow> Ticket_save db t = (db, clean t)"
  by (simp add: Ticket_save_result full_clean_out_of_range)

lemma full_clean_unique_error:
  "full_clean db t = Inl (DjangoValidationError d) \<Longrightarrow> ''__all__'' \<in> fst ` set d \<Longrightarrow>
   isValidSeat (airplane (flight t)) (row t) (seat t) \<and> seat_taken db t"
  by (auto simp: full_clean_cases isValidSeat_def split: if_splits)

lemma Ticket_save_error: "snd (Ticket_save db t) = Inl e \<Longrightarrow> full_clean db t = Inl e"
  by (auto simp: Ticket_save_result split: if_splits)

lemma atomic_snd: "snd (atomic db body) = snd (body db)"
  by (auto simp: atomic_def split: prod.splits sum.splits)

lemma tickets_available_capacity:
  "tickets_available db f = capacity (airplane f) - int (count_tickets db f)"
  by (simp add: tickets_available_def capacity_def)

lemma run_query_item:
  "(f, n) \<in> set (run_query db ls) \<Longrightarrow>
   f \<in> set (flights db) \<and> n = capacity (airplane f) - int (count_tickets db f)"
  by (auto simp: run_query_def FlightViewSet_queryset_def tickets_available_capacity)

lemma list_unfiltered_first:
  "FlightViewSet_list strptime_date int_of db None \<lparr>qp_departure_time = None, qp_route = None\<rparr>
     = (Some (FlightViewSet_queryset db), Inr (map FlightListSerializer (FlightViewSet_queryset db)))"
  by (simp add: FlightViewSet_list_def FlightViewSet_get_queryset_def given_def run_query_def)

lemma list_unfiltered_again:
  "FlightViewSet_list strptime_date int_of db (Some kept)
       \<lparr>qp_departure_time = None, qp_route = None\<rparr>
     = (Some kept, Inr (map FlightListSerializer kept))"
  by (simp add: FlightViewSet_list_def FlightViewSet_get_queryset_def given_def)

lemma list_by_route:
  "int_of route_id_str = Some route_id \<Longrightarrow> route_id_str \<noteq> [] \<Longrightarrow>
   FlightViewSet_list strptime_date int_of db cache
       \<lparr>qp_departure_time = None, qp_route = Some route_id_str\<rparr>
     = (cache, Inr (map FlightListSerializer (run_query db [Route_id route_id])))"
  by (simp add: FlightViewSet_list_def FlightViewSet_get_queryset_def given_def)

lemma count_after_save:
  "Ticket_save db t = (db', Inr ()) \<Longrightarrow>
   count_tickets db' f = count_tickets db f + (if flight_id (flight t) = flight_id f then 1 else 0)"
  by (auto simp: Ticket_save_result count_tickets_def full_clean_ok_iff split: if_splits)

lemma count_after_order_delete:
  "count_tickets (Order_delete db pk) f + length (filter (\<lambda>t. flight_id (flight t) = flight_id f
        \<and> order_id (order t) = pk) (tickets db)) = count_tickets db f"
proof -
  have "\<And>ts. length (filter (\<lambda>t. flight_id (flight t) = flight_id f)
                  (filter (\<lambda>t. order_id (order t) \<noteq> pk) ts))
         + length (filter (\<lambda>t. flight_id (flight t) = flight_id f \<and> order_id (order t) = pk) ts)
         = length (filter (\<lambda>t. flight_id (flight t) = flight_id f) ts)"
    subgoal for ts by (induction ts) auto
    done
  then show ?thesis by (simp add: count_tickets_def Order_delete_def)
qed

lemma view_create_authenticated:
  "OrderViewSet_create new_pk now db \<lparr>request_user = Some u\<rparr> submitted
     = (db, Inl (KeyError ''tickets''))"
  by (simp add: OrderViewSet_create_def validated_tickets_def OrderSerializer_tickets_def
      OrderSerializer_create_def atomic_def create_body_def)






lemma set_paginate:
  "paginate_queryset page queryset = Inr result \<Longrightarrow> set result \<subseteq> set queryset"
  by (auto simp: paginate_queryset_def split: option.splits if_splits page_param.splits
      dest!: in_set_takeD in_set_dropD)

lemma set_get_queryset:
  "set (OrderViewSet_get_queryset db u) = {obj \<in> set (orders db). user obj = user_pk u}"
  by (auto simp: OrderViewSet_get_queryset_def)

lemma requests_pass_iff:
  "requests_pass db ord pre \<longleftrightarrow> snd (create_tickets db ord pre) = Inr ()"
  by (simp add: requests_pass_def create_tickets_ok_iff list_all_iff)

lemma requests_pass_Nil [simp]: "requests_pass db ord []"
  by (simp add: requests_pass_def)

lemma after_requests_Nil [simp]: "after_requests db ord [] = db"
  by (simp add: after_requests_def)

lemma create_tickets_pass:
  "requests_pass db ord pre \<Longrightarrow>
   create_tickets db ord (pre @ rest) = create_tickets (after_requests db ord pre) ord rest"
proof (induction pre arbitrary: db)
  case Nil
  show ?case by simp
next
  case (Cons p pre)
  let ?db' = "db\<lparr>tickets := tickets db @ [Ticket_init ord p]\<rparr>"
  from Cons.prems have v: "isValidSeat (airplane (attrs_flight p)) (attrs_row p) (attrs_seat p)
      \<and> \<not> seat_taken db (Ticket_init ord p)"
    by (simp add: requests_pass_def)
  from Cons.prems have "requests_pass ?db' ord pre"
    by (auto simp: requests_pass_def list_all_iff seat_taken_append image_iff)
  from Cons.IH [OF this] v show ?case
    by (simp add: Ticket_objects_create_result after_requests_def)
qed

lemma create_tickets_first_failure:
  assumes "requests_pass db ord pre"
    and "full_clean (after_requests db ord pre) (Ticket_init ord td) = Inl e"
  shows "create_tickets db ord (pre @ td # post) = (after_requests db ord pre, Inl e)"
proof -
  let ?db = "after_requests db ord pre"
  from assms(2) have "\<not> (isValidSeat (airplane (attrs_flight td)) (attrs_row td) (attrs_seat td)
      \<and> \<not> seat_taken ?db (Ticket_init ord td))"
    using full_clean_ok_iff [of ?db "Ticket_init ord td"] by (auto simp: Ticket_init_def)
  with assms(2) have "create_tickets ?db ord (td # post) = (?db, Inl e)"
    by (auto simp: Ticket_objects_create_result)
  with create_tickets_pass [OF assms(1)] show ?thesis by simp
qed

lemma create_tickets_failure_split:
  "snd (create_tickets db ord tds) = Inl e \<Longrightarrow>
   \<exists>pre td post. tds = pre @ td # post \<and> requests_pass db ord pre
     \<and> full_clean (after_requests db ord pre) (Ticket_init ord td) = Inl e"
proof (induction tds arbitrary: db)
  case Nil
  then show ?case by simp
next
  case (Cons p tds)
  show ?case
  proof (cases "isValidSeat (airplane (attrs_flight p)) (attrs_row p) (attrs_seat p)
         \<and> \<not> seat_taken db (Ticket_init ord p)")
    case True
    let ?db' = "db\<lparr>tickets := tickets db @ [Ticket_init ord p]\<rparr>"
    from True Cons.prems have "snd (create_tickets ?db' ord tds) = Inl e"
      by (simp add: Ticket_objects_create_result)
    from Cons.IH [OF this] obtain pre td post where d: "tds = pre @ td # post"
      and p: "requests_pass ?db' ord pre"
      and f: "full_clean (after_requests ?db' ord pre) (Ticket_init ord td) = Inl e" by blast
    from True p have "requests_pass db ord (p # pre)"
      by (auto simp: requests_pass_def list_all_iff seat_taken_append image_iff)
    moreover have "after_requests ?db' ord pre = after_requests db ord (p # pre)"
      by (simp add: after_requests_def)
    moreover from d have "p # tds = (p # pre) @ td # post" by simp
    ultimately show ?thesis using f by metis
  next
    case False
    then have "isl (full_clean db (Ticket_init ord p))"
      by (simp add: full_clean_isl Ticket_init_def)
    then obtain e' where e': "full_clean db (Ticket_init ord p) = Inl e'"
      by (cases "full_clean db (Ticket_init ord p)") auto
    with False Cons.prems have "e' = e"
      by (auto simp: Ticket_objects_create_result)
    with e' have "p # tds = [] @ p # tds \<and> requests_pass db ord []
        \<and> full_clean (after_requests db ord []) (Ticket_init ord p) = Inl e" by simp
    then show ?thesis by blast
  qed
qed

text \<open>Neither the order of a ticket nor the order table matters to the checks.\<close>

lemma seat_key_order: "seat_key (Ticket_init ord td) = seat_key (Ticket_init ord' td)"
  by (simp add: seat_key_def Ticket_init_def)

lemma seat_taken_order:
  "tickets db' = tickets db \<Longrightarrow>
   seat_taken db' (Ticket_init ord' td) = seat_taken db (Ticket_init ord td)"
  by (simp add: seat_taken_iff seat_key_order [of ord' td ord])

lemma seat_taken_after_order:
  "map seat_key (tickets db') = map seat_key (tickets db) \<Longrightarrow>
   seat_taken (after_requests db' ord' pre) (Ticket_init ord' td)
     = seat_taken (after_requests db ord pre) (Ticket_init ord td)"
proof -
  assume a: "map seat_key (tickets db') = map seat_key (tickets db)"
  have 1: "seat_key ` set (tickets db') = seat_key ` set (tickets db)"
    using a by (metis set_map)
  have 2: "(\<lambda>x. seat_key (Ticket_init ord' x)) ` set pre
      = (\<lambda>x. seat_key (Ticket_init ord x)) ` set pre"
    by (rule image_cong) (simp_all add: seat_key_order [of ord' _ ord])
  show ?thesis
    by (simp add: seat_taken_iff after_requests_def image_Un image_image 1 2
        seat_key_order [of ord' td ord])
qed

lemma requests_pass_order:
  "tickets db' = tickets db \<Longrightarrow> requests_pass db' ord' pre = requests_pass db ord pre"
proof -
  assume a: "tickets db' = tickets db"
  have 1: "map (\<lambda>x. seat_key (Ticket_init ord' x)) pre
      = map (\<lambda>x. seat_key (Ticket_init ord x)) pre"
    by (rule map_cong) (simp_all add: seat_key_order [of ord' _ ord])
  have 2: "\<And>p. seat_taken db' (Ticket_init ord' p) = seat_taken db (Ticket_init ord p)"
    by (rule seat_taken_order [OF a])
  show ?thesis by (simp add: requests_pass_def 1 2)
qed

lemma full_clean_order:
  "map seat_key (tickets db') = map seat_key (tickets db) \<Longrightarrow>
   full_clean (after_requests db' ord' pre) (Ticket_init ord' td)
     = full_clean (after_requests db ord pre) (Ticket_init ord td)"
  using seat_taken_after_order [of db' db ord' pre td ord]
  by (simp add: full_clean_cases) (simp add: Ticket_init_def)

lemma order_first_failure:
  assumes "vd_tickets vd = Some (pre @ td # post)" and "vd_user vd = Instance u"
    and "requests_pass db ord pre"
    and "full_clean (after_requests db ord pre) (Ticket_init ord td) = Inl e"
  shows "OrderSerializer_create pk now db vd = (db, Inl e)"
proof -
  let ?ord = "\<lparr>order_id = pk, created_at = now, user = user_pk u\<rparr>"
  let ?db1 = "db\<lparr>orders := orders db @ [?ord]\<rparr>"
  have t: "tickets ?db1 = tickets db" by simp
  from assms(3) have p: "requests_pass ?db1 ?ord pre"
    by (simp add: requests_pass_order [OF t, of ?ord pre ord])
  from assms(4) have "full_clean (after_requests ?db1 ?ord pre) (Ticket_init ?ord td) = Inl e"
    using full_clean_order [of ?db1 db ?ord pre td ord] by simp
  from create_tickets_first_failure [OF p this]
  have "create_tickets ?db1 ?ord (pre @ td # post) = (after_requests ?db1 ?ord pre, Inl e)" .
  with assms(1,2) show ?thesis
    by (simp add: OrderSerializer_create_def atomic_def create_body_def
        Order_objects_create_def Let_def)
qed

lemma order_failure_split:
  assumes "snd (OrderSerializer_create pk now db vd) = Inl (DjangoValidationError d)"
    and "vd_tickets vd = Some tds"
  shows "\<exists>pre td post. tds = pre @ td # post \<and> requests_pass db ord pre
     \<and> full_clean (after_requests db ord pre) (Ticket_init ord td)
         = Inl (DjangoValidationError d)"
proof (cases "vd_user vd")
  case (Pk n)
  with assms show ?thesis
    by (simp add: OrderSerializer_create_def atomic_def create_body_def
        Order_objects_create_def)
next
  case (Instance u)
  let ?ord = "\<lparr>order_id = pk, created_at = now, user = user_pk u\<rparr>"
  let ?db1 = "db\<lparr>orders := orders db @ [?ord]\<rparr>"
  have t: "tickets ?db1 = tickets db" by simp
  from assms Instance
  have "snd (create_tickets ?db1 ?ord tds) = Inl (DjangoValidationError d)"
    by (auto simp: OrderSerializer_create_def atomic_def create_body_def
        Order_objects_create_def Let_def split: prod.splits sum.splits)
  from create_tickets_failure_split [OF this] obtain pre td post
    where d: "tds = pre @ td # post" and p: "requests_pass ?db1 ?ord pre"
      and f: "full_clean (after_requests ?db1 ?ord pre) (Ticket_init ?ord td)
         = Inl (DjangoValidationError d)" by blast
  from p have "requests_pass db ord pre"
    by (simp add: requests_pass_order [OF t, of ?ord pre ord])
  moreover from f have "full_clean (after_requests db ord pre) (Ticket_init ord td)
         = Inl (DjangoValidationError d)"
    using full_clean_order [of ?db1 db ?ord pre td ord] by simp
  ultimately show ?thesis using d by blast
qed

lemma full_clean_taken:
  "isValidSeat (airplane (flight t)) (row t) (seat t) \<Longrightarrow> seat_taken db t \<Longrightarrow>
   full_clean db t = Inl (DjangoValidationError [(''__all__'', unique_message)])"
  by (simp add: full_clean_cases isValidSeat_def)


lemma run_validation_found:
  "find (\<lambda>f. flight_id f = input_flight data) (flights db) = Some f \<Longrightarrow>
   find (\<lambda>obj. order_id obj = input_order data) (orders db) = Some obj \<Longrightarrow>
   TicketSerializer_run_validation db data =
     (let attrs = \<lparr>attrs_row = input_row data, attrs_seat = input_seat data, attrs_flight = f\<rparr>
      in if seat_taken db (Ticket_init obj attrs)
         then Inl (DRFValidationError [(''non_field_errors'', unique_set_message)])
         else case validate_ticket (input_row data) (input_seat data) (airplane f)
                     DRFValidationError of
                Inl e \<Rightarrow> Inl e
              | Inr _ \<Rightarrow> Inr (attrs, obj))"
  by (simp add: TicketSerializer_run_validation_def TicketSerializer_to_internal_value_def
      UniqueTogetherValidator_def TicketSerializer_validate_def Let_def split: sum.splits)

subsection \<open>The sample objects evaluated\<close>

lemma sample_save:
  "Ticket_save empty_store (sample_ticket 3 2)
     = (empty_store\<lparr>tickets := [sample_ticket 3 2]\<rparr>, Inr ())"
  by (simp add: Ticket_save_cases full_clean_cases seat_taken_def empty_store_def
      sample_ticket_def sample_flight_def sample_airplane_def)

lemma sample_save2:
  "Ticket_save (empty_store\<lparr>tickets := [sample_ticket 3 2]\<rparr>) (sample_ticket 3 1)
     = (empty_store\<lparr>tickets := [sample_ticket 3 2, sample_ticket 3 1]\<rparr>, Inr ())"
  by (simp add: Ticket_save_cases full_clean_cases seat_taken_def empty_store_def same_seat_def
      sample_ticket_def sample_flight_def sample_airplane_def)

lemma full_clean_sample_dup:
  "full_clean (empty_store\<lparr>tickets := [sample_ticket 3 2]\<rparr>) (sample_ticket 3 2)
     = Inl (DjangoValidationError [(''__all__'', unique_message)])"
  by (simp add: full_clean_cases seat_taken_def same_seat_def empty_store_def
      sample_ticket_def sample_flight_def sample_airplane_def)

lemma sample_key: "seat_key (Ticket_init ord (sample_attrs r s)) = (1, r, s)"
  by (simp add: seat_key_def Ticket_init_def sample_attrs_def sample_flight_def)

lemma sample_valid:
  "isValidSeat (airplane (attrs_flight (sample_attrs r s))) (attrs_row (sample_attrs r s))
     (attrs_seat (sample_attrs r s)) \<longleftrightarrow> 1 \<le> r \<and> r \<le> 8 \<and> 1 \<le> s \<and> s \<le> 2"
  by (simp add: isValidSeat_def sample_attrs_def sample_flight_def sample_airplane_def)




lemma moved_invalid:
  "\<not> isValidSeat (airplane (flight moved_ticket)) (row moved_ticket) (seat moved_ticket)"
  by (simp add: isValidSeat_def moved_ticket_def moved_flight_def second_airplane_def)

lemma moved_attrs_invalid:
  "\<not> isValidSeat (airplane (attrs_flight moved_attrs)) (attrs_row moved_attrs)
        (attrs_seat moved_attrs)"
  by (simp add: isValidSeat_def moved_attrs_def moved_flight_def second_airplane_def)

lemma moved_taken: "seat_taken (empty_store\<lparr>tickets := [sample_ticket 8 1]\<rparr>) moved_ticket"
  by (simp add: seat_taken_def same_seat_def moved_ticket_def moved_flight_def
      sample_ticket_def sample_flight_def)

lemma moved_message:
  "validate_ticket 8 1 second_airplane DjangoValidationError
     = Inl (DjangoValidationError
         [(''row'', ''row number must be in available range: (1, rows): (1, 3)'')])"
  by (simp add: validate_ticket_cases second_airplane_def range_message_def str_int_def
      str_nat.simps digit_char_def)

lemma sample_dup_save:
  "snd (Ticket_save (empty_store\<lparr>tickets := [sample_ticket 3 2]\<rparr>) (sample_ticket 3 2))
     = Inl (DjangoValidationError [(''__all__'', unique_message)])"
  by (simp add: Ticket_save_result full_clean_sample_dup seat_taken_def same_seat_def)

lemma listed_save:
  "Ticket_save listed_store (sample_ticket 3 2)
     = (listed_store\<lparr>tickets := [sample_ticket 3 2]\<rparr>, Inr ())"
  by (simp add: Ticket_save_result seat_taken_def listed_store_def empty_store_def)
    (simp add: isValidSeat_def sample_ticket_def sample_flight_def sample_airplane_def)

lemma listed_queryset: "FlightViewSet_queryset listed_store = [(sample_flight, 16)]"
  by (simp add: FlightViewSet_queryset_def listed_store_def empty_store_def tickets_available_def
      count_tickets_def sample_flight_def sample_airplane_def)

lemma listed_queryset_sold:
  "FlightViewSet_queryset (listed_store\<lparr>tickets := [sample_ticket 3 2]\<rparr>) = [(sample_flight, 15)]"
  by (simp add: FlightViewSet_queryset_def listed_store_def empty_store_def tickets_available_def
      count_tickets_def sample_ticket_def sample_flight_def sample_airplane_def)

lemma sample_item:
  "FlightListSerializer (sample_flight, n)
     = \<lparr>item_id = 1, item_airplane_name = ''testairplane'', item_airplane_capacity = 16,
        item_tickets_available = n\<rparr>"
  by (simp add: FlightListSerializer_def capacity_def sample_flight_def sample_airplane_def)

lemma listed_count_sold:
  "count_tickets (listed_store\<lparr>tickets := [sample_ticket 3 2]\<rparr>) sample_flight = 1"
  by (simp add: count_tickets_def sample_ticket_def)

lemma sample_order_created:
  "OrderSerializer_create 1 0 empty_store
      \<lparr>vd_tickets = Some [sample_attrs 3 2], vd_user = Instance sample_user\<rparr>
     = (\<lparr>airplane_types = [], airplanes = [], flights = [], orders = [sample_order],
         tickets = [sample_ticket 3 2]\<rparr>, Inr sample_order)"
proof -
  have i: "Ticket_init sample_order (sample_attrs 3 2) = sample_ticket 3 2"
    by (simp add: Ticket_init_def sample_attrs_def sample_ticket_def)
  have o: "\<lparr>order_id = 1, created_at = 0, user = user_pk sample_user\<rparr> = sample_order"
    by (simp add: sample_order_def sample_user_def)
  have c: "Ticket_objects_create (empty_store\<lparr>orders := orders empty_store @ [sample_order]\<rparr>)
      sample_order (sample_attrs 3 2)
     = (\<lparr>airplane_types = [], airplanes = [], flights = [], orders = [sample_order],
         tickets = [sample_ticket 3 2]\<rparr>, Inr (sample_ticket 3 2))"
    by (simp add: Ticket_objects_create_result i seat_taken_def empty_store_def sample_valid)
  show ?thesis
    unfolding single_request_order Let_def o c by simp
qed

lemma taken_batch_pass:
  "requests_pass (empty_store\<lparr>tickets := [sample_ticket 3 2]\<rparr>) sample_order [sample_attrs 3 1]"
  by (simp add: requests_pass_def sample_valid seat_taken_iff sample_key)
    (simp add: seat_key_def sample_ticket_def sample_flight_def)

lemma taken_batch_taken:
  "seat_taken (after_requests (empty_store\<lparr>tickets := [sample_ticket 3 2]\<rparr>) sample_order
       [sample_attrs 3 1]) (Ticket_init sample_order (sample_attrs 3 2))"
  by (simp add: after_requests_def seat_taken_iff sample_key)
    (simp add: seat_key_def sample_ticket_def sample_flight_def)

lemma moved_store_flight:
  "find (\<lambda>f. flight_id f = input_flight moved_input) (flights moved_store) = Some moved_flight"
  by (simp add: moved_store_def moved_input_def moved_flight_def sample_flight_def)

lemma moved_store_order:
  "find (\<lambda>obj. order_id obj = input_order moved_input) (orders moved_store) = Some other_order"
  by (simp add: moved_store_def moved_input_def other_order_def)

lemma moved_input_attrs:
  "\<lparr>attrs_row = input_row moved_input, attrs_seat = input_seat moved_input,
     attrs_flight = moved_flight\<rparr> = moved_attrs"
  by (simp add: moved_input_def moved_attrs_def)

lemma moved_store_taken: "seat_taken moved_store (Ticket_init other_order moved_attrs)"
  by (simp add: seat_taken_def same_seat_def moved_store_def moved_attrs_def moved_flight_def
      Ticket_init_def sample_ticket_def sample_flight_def)

lemma moved_batch_pass:
  "requests_pass (empty_store\<lparr>tickets := [sample_ticket 8 1]\<rparr>) other_order [sample_attrs 3 2]"
  by (simp add: requests_pass_def sample_valid seat_taken_iff sample_key)
    (simp add: seat_key_def sample_ticket_def sample_flight_def)

lemma moved_batch_taken:
  "seat_taken (after_requests (empty_store\<lparr>tickets := [sample_ticket 8 1]\<rparr>) other_order
       [sample_attrs 3 2]) (Ticket_init other_order moved_attrs)"
  by (simp add: after_requests_def seat_taken_iff)
    (simp add: seat_key_def sample_ticket_def sample_flight_def Ticket_init_def moved_attrs_def
      moved_flight_def)

lemma duplicate_batch_error:
  "snd (OrderSerializer_create 2 0 (empty_store\<lparr>tickets := [sample_ticket 3 2]\<rparr>)
         duplicate_batch)
     = Inl (DjangoValidationError [(''__all__'', unique_message)])"
proof -
  have "OrderSerializer_create 2 0 (empty_store\<lparr>tickets := [sample_ticket 3 2]\<rparr>)
      duplicate_batch
     = (empty_store\<lparr>tickets := [sample_ticket 3 2]\<rparr>,
        Inl (DjangoValidationError [(''__all__'', unique_message)]))"
  proof (rule order_first_failure [where pre = "[sample_attrs 3 1]" and td = "sample_attrs 3 2"
        and post = "[]" and u = sample_user and ord = sample_order])
    show "vd_tickets duplicate_batch = Some ([sample_attrs 3 1] @ [sample_attrs 3 2])"
      by (simp add: duplicate_batch_def)
    show "vd_user duplicate_batch = Instance sample_user" by (simp add: duplicate_batch_def)
    show "requests_pass (empty_store\<lparr>tickets := [sample_ticket 3 2]\<rparr>) sample_order
        [sample_attrs 3 1]" by (rule taken_batch_pass)
    show "full_clean (after_requests (empty_store\<lparr>tickets := [sample_ticket 3 2]\<rparr>)
          sample_order [sample_attrs 3 1]) (Ticket_init sample_order (sample_attrs 3 2))
        = Inl (DjangoValidationError [(''__all__'', unique_message)])"
      using taken_batch_taken sample_valid [of 3 2]
      by (intro full_clean_taken) (simp_all add: Ticket_init_def)
  qed
  then show ?thesis by simp
qed

section \<open>Seat uniqueness (Invariant B)\<close>

text \<open>
  C1.  In every reachable store no two tickets of one flight have the same (row, seat):
  any two distinct rows of the ticket table differ in flight, row or seat.  Both creation
  operations, \<open>Ticket.save\<close> (direct) and \<open>OrderSerializer.create\<close> (order-embedded),
  preserve the uniqueness of (flight, row, seat), whether they succeed or fail.
\<close>

theorem seat_uniqueness_invariant:
  "(reachable db \<longrightarrow>
      (\<forall>i < length (tickets db). \<forall>j < length (tickets db).
         i \<noteq> j \<longrightarrow> \<not> same_seat (tickets db ! i) (tickets db ! j)))
   \<and> (seats_unique db \<longrightarrow>
        seats_unique (fst (Ticket_save db t))
        \<and> seats_unique (fst (OrderSerializer_create new_pk now db validated_data)))"
  using reachable_invariant [of db] Ticket_save_unique [of db t]
    OrderSerializer_create_unique [of db new_pk now validated_data]
  by (simp add: seats_unique_nth)

theorem seat_uniqueness_invariant_witness:
  "reachable (empty_store\<lparr>tickets := [sample_ticket 3 2, sample_ticket 3 1]\<rparr>)
   \<and> seats_unique (empty_store\<lparr>tickets := [sample_ticket 3 2, sample_ticket 3 1]\<rparr>)
   \<and> \<not> same_seat (sample_ticket 3 2) (sample_ticket 3 1)
   \<and> seats_unique (fst (Ticket_save (empty_store\<lparr>tickets := [sample_ticket 3 2, sample_ticket 3 1]\<rparr>)
         (sample_ticket 3 2)))
   \<and> seats_unique (fst (OrderSerializer_create 1 0
         (empty_store\<lparr>tickets := [sample_ticket 3 2, sample_ticket 3 1]\<rparr>)
         \<lparr>vd_tickets = Some [sample_attrs 3 2], vd_user = Instance sample_user\<rparr>))"
proof -
  let ?db = "empty_store\<lparr>tickets := [sample_ticket 3 2, sample_ticket 3 1]\<rparr>"
  have r1: "reachable (empty_store\<lparr>tickets := [sample_ticket 3 2]\<rparr>)"
    using reachable_ticket [OF reachable_empty sample_save] .
  have r: "reachable ?db"
    using reachable_ticket [OF r1 sample_save2] .
  have u: "seats_unique ?db"
    by (simp add: seats_unique_def seat_key_def sample_ticket_def)
  have a: "\<forall>i < length (tickets ?db). \<forall>j < length (tickets ?db).
         i \<noteq> j \<longrightarrow> \<not> same_seat (tickets ?db ! i) (tickets ?db ! j)"
    using seat_uniqueness_invariant [of ?db] r by blast
  have n: "\<not> same_seat (sample_ticket 3 2) (sample_ticket 3 1)"
    using a [rule_format, of 0 1] by simp
  from seat_uniqueness_invariant [of ?db "sample_ticket 3 2" 1 0
      "\<lparr>vd_tickets = Some [sample_attrs 3 2], vd_user = Instance sample_user\<rparr>"] r u n
  show ?thesis by simp
qed

section \<open>Seat range validation (Invariant A)\<close>

text \<open>
  C2.  For an airplane with \<open>rows = R\<close> and \<open>seats_in_row = S\<close>, \<open>validate_ticket\<close> accepts
  (row, seat) exactly when \<open>1 \<le> row \<le> R\<close> and \<open>1 \<le> seat \<le> S\<close>: row 0, row R+1, seat 0 and
  seat S+1 are rejected, and on an airplane with at least one seat the corners (1, 1),
  (R, 1), (1, S) and (R, S) are accepted.  The validator is what \<open>Ticket.clean\<close> calls, so
  a ticket that \<open>Ticket.save\<close> stores is in range, and so is every request of an order
  that \<open>OrderSerializer.create\<close> stores; and it is what \<open>TicketSerializer.validate\<close> calls.
\<close>

theorem seat_range_validation:
  "(validate_ticket r s a e = Inr () \<longleftrightarrow> 1 \<le> r \<and> r \<le> rows a \<and> 1 \<le> s \<and> s \<le> seats_in_row a)
   \<and> validate_ticket 0 s a e \<noteq> Inr ()
   \<and> validate_ticket (rows a + 1) s a e \<noteq> Inr ()
   \<and> validate_ticket r 0 a e \<noteq> Inr ()
   \<and> validate_ticket r (seats_in_row a + 1) a e \<noteq> Inr ()
   \<and> (1 \<le> rows a \<and> 1 \<le> seats_in_row a \<longrightarrow>
        validate_ticket 1 1 a e = Inr ()
        \<and> validate_ticket (rows a) 1 a e = Inr ()
        \<and> validate_ticket 1 (seats_in_row a) a e = Inr ()
        \<and> validate_ticket (rows a) (seats_in_row a) a e = Inr ())
   \<and> clean t = validate_ticket (row t) (seat t) (airplane (flight t)) DjangoValidationError
   \<and> (snd (Ticket_save db t) = Inr () \<longrightarrow>
        1 \<le> row t \<and> row t \<le> rows (airplane (flight t))
        \<and> 1 \<le> seat t \<and> seat t \<le> seats_in_row (airplane (flight t)))
   \<and> (snd (OrderSerializer_create new_pk now db validated_data) = Inr order'
       \<and> vd_tickets validated_data = Some tickets_data \<and> td \<in> set tickets_data \<longrightarrow>
        1 \<le> attrs_row td \<and> attrs_row td \<le> rows (airplane (attrs_flight td))
        \<and> 1 \<le> attrs_seat td \<and> attrs_seat td \<le> seats_in_row (airplane (attrs_flight td)))
   \<and> (TicketSerializer_validate attrs = Inr attrs \<longleftrightarrow>
        1 \<le> attrs_row attrs \<and> attrs_row attrs \<le> rows (airplane (attrs_flight attrs))
        \<and> 1 \<le> attrs_seat attrs \<and> attrs_seat attrs \<le> seats_in_row (airplane (attrs_flight attrs)))"
  using Ticket_save_ok_range [of db t]
    order_ok_range [of new_pk now db validated_data order' tickets_data td]
  by (simp add: validate_ticket_ok_iff TicketSerializer_validate_ok_iff isValidSeat_def clean_def)

theorem seat_range_validation_witness:
  "1 \<le> rows sample_airplane \<and> 1 \<le> seats_in_row sample_airplane
   \<and> validate_ticket 1 1 sample_airplane DjangoValidationError = Inr ()
   \<and> validate_ticket 8 2 sample_airplane DjangoValidationError = Inr ()
   \<and> validate_ticket 9 2 sample_airplane DjangoValidationError \<noteq> Inr ()
   \<and> snd (Ticket_save empty_store (sample_ticket 3 2)) = Inr ()
   \<and> 1 \<le> row (sample_ticket 3 2)
   \<and> row (sample_ticket 3 2) \<le> rows (airplane (flight (sample_ticket 3 2)))
   \<and> snd (OrderSerializer_create 1 0 empty_store
             \<lparr>vd_tickets = Some [sample_attrs 3 2], vd_user = Instance sample_user\<rparr>)
       = Inr sample_order
   \<and> sample_attrs 3 2 \<in> set [sample_attrs 3 2]
   \<and> attrs_seat (sample_attrs 3 2) \<le> seats_in_row (airplane (attrs_flight (sample_attrs 3 2)))"
proof -
  have h: "1 \<le> rows sample_airplane \<and> 1 \<le> seats_in_row sample_airplane"
    by (simp add: sample_airplane_def)
  have s: "snd (Ticket_save empty_store (sample_ticket 3 2)) = Inr ()"
    by (simp add: sample_save)
  have r8: "rows sample_airplane = 8" and s2: "seats_in_row sample_airplane = 2"
    by (simp_all add: sample_airplane_def)
  have c: "snd (OrderSerializer_create 1 0 empty_store
             \<lparr>vd_tickets = Some [sample_attrs 3 2], vd_user = Instance sample_user\<rparr>)
       = Inr sample_order"
    unfolding sample_order_created by simp
  from seat_range_validation [where r = 8 and s = 2 and a = sample_airplane
      and e = DjangoValidationError and t = "sample_ticket 3 2" and db = empty_store
      and attrs = "sample_attrs 3 2" and new_pk = 1 and now = 0
      and validated_data = "\<lparr>vd_tickets = Some [sample_attrs 3 2], vd_user = Instance sample_user\<rparr>"
      and order' = sample_order and tickets_data = "[sample_attrs 3 2]"
      and td = "sample_attrs 3 2"] h s r8 s2 c
  show ?thesis by simp
qed

section \<open>Order creation is all-or-nothing\<close>

text \<open>
  C3.  Whenever \<open>OrderSerializer.create\<close> raises, the store after the call is the store
  before it: no order and no ticket of the batch is persisted.  It does raise whenever a
  request of the batch is out of range, asks for a seat that is already taken in the
  store, or repeats the seat of another request of the batch.
\<close>

theorem order_creation_all_or_nothing:
  "(isl (snd (OrderSerializer_create new_pk now db validated_data)) \<longrightarrow>
      fst (OrderSerializer_create new_pk now db validated_data) = db)
   \<and> (vd_tickets validated_data = Some tickets_data
       \<and> ((\<exists>td \<in> set tickets_data.
              \<not> isValidSeat (airplane (attrs_flight td)) (attrs_row td) (attrs_seat td)
              \<or> seat_taken db (Ticket_init ord td))
            \<or> \<not> distinct (map (\<lambda>td. seat_key (Ticket_init ord td)) tickets_data)) \<longrightarrow>
      isl (snd (OrderSerializer_create new_pk now db validated_data))
      \<and> fst (OrderSerializer_create new_pk now db validated_data) = db)"
  using create_body_fails [of validated_data tickets_data db ord new_pk now]
    atomic_rollback [of db "create_body new_pk now validated_data"]
  by (auto simp: OrderSerializer_create_def atomic_isl)

theorem order_creation_all_or_nothing_witness:
  "vd_tickets \<lparr>vd_tickets = Some [sample_attrs 3 2, sample_attrs 3 2], vd_user = Instance sample_user\<rparr>
     = Some [sample_attrs 3 2, sample_attrs 3 2]
   \<and> \<not> distinct (map (\<lambda>td. seat_key (Ticket_init sample_order td))
                      [sample_attrs 3 2, sample_attrs 3 2])
   \<and> isl (snd (OrderSerializer_create 1 0 empty_store
        \<lparr>vd_tickets = Some [sample_attrs 3 2, sample_attrs 3 2], vd_user = Instance sample_user\<rparr>))
   \<and> fst (OrderSerializer_create 1 0 empty_store
        \<lparr>vd_tickets = Some [sample_attrs 3 2, sample_attrs 3 2], vd_user = Instance sample_user\<rparr>)
       = empty_store
   \<and> \<not> isValidSeat (airplane (attrs_flight (sample_attrs 9 1))) (attrs_row (sample_attrs 9 1))
          (attrs_seat (sample_attrs 9 1))
   \<and> isl (snd (OrderSerializer_create 1 0 empty_store
        \<lparr>vd_tickets = Some [sample_attrs 3 2, sample_attrs 9 1], vd_user = Instance sample_user\<rparr>))
   \<and> fst (OrderSerializer_create 1 0 empty_store
        \<lparr>vd_tickets = Some [sample_attrs 3 2, sample_attrs 9 1], vd_user = Instance sample_user\<rparr>)
       = empty_store"
proof -
  have d: "\<not> distinct (map (\<lambda>td. seat_key (Ticket_init sample_order td))
                      [sample_attrs 3 2, sample_attrs 3 2])"
    by simp
  have v: "\<not> isValidSeat (airplane (attrs_flight (sample_attrs 9 1))) (attrs_row (sample_attrs 9 1))
          (attrs_seat (sample_attrs 9 1))"
    by (simp add: sample_valid)
  from order_creation_all_or_nothing [of 1 0 empty_store
      "\<lparr>vd_tickets = Some [sample_attrs 3 2, sample_attrs 3 2], vd_user = Instance sample_user\<rparr>"
      "[sample_attrs 3 2, sample_attrs 3 2]" sample_order]
    order_creation_all_or_nothing [of 1 0 empty_store
      "\<lparr>vd_tickets = Some [sample_attrs 3 2, sample_attrs 9 1], vd_user = Instance sample_user\<rparr>"
      "[sample_attrs 3 2, sample_attrs 9 1]" sample_order] d v
  show ?thesis by simp
qed

section \<open>A seat that is already taken\<close>




section \<open>Availability\<close>

text \<open>
  C5 at the failing input.  Whenever the annotated query runs, \<open>tickets_available\<close> is the
  capacity of the flight's airplane minus the number of tickets issued for the flight.  But
  the list without query parameters iterates the shared class attribute: the first
  listing of the sample flight reports 16 seats and leaves the rows in the result cache;
  after a ticket for the flight has been saved (15 seats are free) the same listing
  reports 16 again, while the listing filtered by route, a new query set, reports 15.
\<close>

theorem flight_list_after_ticket_sale:
  "tickets_available db f = capacity (airplane f) - int (count_tickets db f)
   \<and> FlightViewSet_list sample_strptime sample_int listed_store None
         \<lparr>qp_departure_time = None, qp_route = None\<rparr>
       = (Some [(sample_flight, 16)],
          Inr [\<lparr>item_id = 1, item_airplane_name = ''testairplane'', item_airplane_capacity = 16,
                item_tickets_available = 16\<rparr>])
   \<and> Ticket_save listed_store (sample_ticket 3 2)
       = (listed_store\<lparr>tickets := [sample_ticket 3 2]\<rparr>, Inr ())
   \<and> capacity (airplane sample_flight)
         - int (count_tickets (listed_store\<lparr>tickets := [sample_ticket 3 2]\<rparr>) sample_flight) = 15
   \<and> FlightViewSet_list sample_strptime sample_int (listed_store\<lparr>tickets := [sample_ticket 3 2]\<rparr>)
         (Some [(sample_flight, 16)]) \<lparr>qp_departure_time = None, qp_route = None\<rparr>
       = (Some [(sample_flight, 16)],
          Inr [\<lparr>item_id = 1, item_airplane_name = ''testairplane'', item_airplane_capacity = 16,
                item_tickets_available = 16\<rparr>])
   \<and> FlightViewSet_list sample_strptime sample_int (listed_store\<lparr>tickets := [sample_ticket 3 2]\<rparr>)
         (Some [(sample_flight, 16)]) \<lparr>qp_departure_time = None, qp_route = Some ''1''\<rparr>
       = (Some [(sample_flight, 16)],
          Inr [\<lparr>item_id = 1, item_airplane_name = ''testairplane'', item_airplane_capacity = 16,
                item_tickets_available = 15\<rparr>])"
proof -
  have r: "run_query (listed_store\<lparr>tickets := [sample_ticket 3 2]\<rparr>) [Route_id 1]
      = [(sample_flight, 15)]"
    by (simp add: run_query_def listed_queryset_sold) (simp add: sample_flight_def)
  have i: "sample_int ''1'' = Some 1" by (simp add: sample_int_def)
  have c: "capacity (airplane sample_flight) = 16"
    by (simp add: capacity_def sample_flight_def sample_airplane_def)
  show ?thesis
    by (simp add: tickets_available_capacity list_unfiltered_first list_unfiltered_again
        list_by_route [where int_of = sample_int and route_id_str = "''1''" and route_id = 1, OF i] listed_queryset sample_item listed_save r listed_count_sold c)
qed

section \<open>Reporting range violations\<close>

text \<open>
  C6 as stated fails: with row and seat both out of range (row 9, seat 3 on the 8 by 2
  airplane) the error names the row only, and has no entry for the seat.
\<close>

theorem both_out_of_range_counterexample:
  "validate_ticket 9 3 sample_airplane DjangoValidationError
     = Inl (DjangoValidationError
         [(''row'', ''row number must be in available range: (1, rows): (1, 8)'')])
   \<and> \<not> (1 \<le> (9::int) \<and> 9 \<le> rows sample_airplane)
   \<and> \<not> (1 \<le> (3::int) \<and> 3 \<le> seats_in_row sample_airplane)
   \<and> map_of [(''row'', ''row number must be in available range: (1, rows): (1, 8)'')] ''seat''
       = None"
  by (simp add: validate_ticket_cases sample_airplane_def range_message_def str_int_def
      str_nat.simps digit_char_def)

text \<open>
  C6, amended.  The validator reports the first violating field, in the order row, seat:
  when the row is out of range the error has the single key \<open>row\<close>, whatever the seat is;
  when the row is in range and the seat is not, the error has the single key \<open>seat\<close>.
  For 8 rows the row message reads
  \<open>row number must be in available range: (1, rows): (1, 8)\<close>.
\<close>

theorem first_violation_reported:
  "(\<not> (1 \<le> r \<and> r \<le> rows a) \<longrightarrow>
      validate_ticket r s a e = Inl (e [(''row'', range_message ''row'' ''rows'' (rows a))]))
   \<and> (1 \<le> r \<and> r \<le> rows a \<and> \<not> (1 \<le> s \<and> s \<le> seats_in_row a) \<longrightarrow>
      validate_ticket r s a e
        = Inl (e [(''seat'', range_message ''seat'' ''seats_in_row'' (seats_in_row a))]))
   \<and> (rows a = 8 \<longrightarrow> range_message ''row'' ''rows'' (rows a)
         = ''row number must be in available range: (1, rows): (1, 8)'')"
  by (simp add: validate_ticket_cases range_message_def str_int_def str_nat.simps digit_char_def)

theorem first_violation_reported_witness:
  "\<not> (1 \<le> (9::int) \<and> 9 \<le> rows sample_airplane)
   \<and> validate_ticket 9 3 sample_airplane DRFValidationError
       = Inl (DRFValidationError
           [(''row'', ''row number must be in available range: (1, rows): (1, 8)'')])
   \<and> 1 \<le> (8::int) \<and> 8 \<le> rows sample_airplane \<and> \<not> (1 \<le> (3::int) \<and> 3 \<le> seats_in_row sample_airplane)
   \<and> validate_ticket 8 3 sample_airplane DRFValidationError
       = Inl (DRFValidationError
           [(''seat'', ''seat number must be in available range: (1, seats_in_row): (1, 2)'')])"
proof -
  have r8: "rows sample_airplane = 8" and s2: "seats_in_row sample_airplane = 2"
    by (simp_all add: sample_airplane_def)
  have m: "range_message ''seat'' ''seats_in_row'' 2
      = ''seat number must be in available range: (1, seats_in_row): (1, 2)''"
    by (simp add: range_message_def str_int_def str_nat.simps digit_char_def)
  from first_violation_reported [of 9 sample_airplane 3 DRFValidationError]
    first_violation_reported [of 8 sample_airplane 3 DRFValidationError] r8 s2 m
  show ?thesis by simp
qed

section \<open>Order of the checks\<close>

text \<open>
  C7 as stated fails on the path through \<open>TicketSerializer\<close>: run on a request that is
  out of range and whose seat is taken, the serializer raises the uniqueness error of the
  generated validator, which runs before \<open>validate()\<close> and its range checks.
\<close>

theorem serializer_uniqueness_first_counterexample:
  "\<not> isValidSeat (airplane (attrs_flight moved_attrs)) (attrs_row moved_attrs)
        (attrs_seat moved_attrs)
   \<and> seat_taken moved_store (Ticket_init other_order moved_attrs)
   \<and> TicketSerializer_run_validation moved_store moved_input
       = Inl (DRFValidationError [(''non_field_errors'', unique_set_message)])"
  using run_validation_found [OF moved_store_flight moved_store_order]
  by (simp add: moved_attrs_invalid moved_store_taken moved_input_attrs)

text \<open>
  C7, amended.  On the two paths that store tickets the range checks come before the
  uniqueness check.  A request that is out of range fails with the range error of
  \<open>validate_ticket\<close> alone, one entry keyed \<open>row\<close> or \<open>seat\<close>, whether its seat is taken or
  not: from \<open>Ticket.save\<close>, and from an order of any size in which it is the first request
  to fail.  A validation error that has the uniqueness entry (\<open>__all__\<close>) comes from a
  request that passed the range checks and whose seat is taken: the ticket saved, or the
  first request of the batch to fail.  A \<open>TicketSerializer\<close> run on input checks
  uniqueness first: when the seat is taken it raises the uniqueness error, in range or not.
\<close>

theorem range_checks_before_uniqueness:
  "(\<not> isValidSeat (airplane (flight t)) (row t) (seat t) \<longrightarrow>
      Ticket_save db t
        = (db, validate_ticket (row t) (seat t) (airplane (flight t)) DjangoValidationError)
      \<and> (\<exists>field msg. (field = ''row'' \<or> field = ''seat'')
            \<and> snd (Ticket_save db t) = Inl (DjangoValidationError [(field, msg)])))
   \<and> (vd_tickets validated_data = Some (pre @ td # post)
       \<and> vd_user validated_data = Instance u \<and> requests_pass db ord pre
       \<and> \<not> isValidSeat (airplane (attrs_flight td)) (attrs_row td) (attrs_seat td) \<longrightarrow>
      (\<exists>field msg. (field = ''row'' \<or> field = ''seat'')
         \<and> validate_ticket (attrs_row td) (attrs_seat td) (airplane (attrs_flight td))
              DjangoValidationError = Inl (DjangoValidationError [(field, msg)])
         \<and> OrderSerializer_create new_pk now db validated_data
              = (db, Inl (DjangoValidationError [(field, msg)]))))
   \<and> (snd (Ticket_save db t) = Inl (DjangoValidationError d) \<and> ''__all__'' \<in> fst ` set d \<longrightarrow>
        isValidSeat (airplane (flight t)) (row t) (seat t) \<and> seat_taken db t)
   \<and> (snd (OrderSerializer_create new_pk now db validated_data) = Inl (DjangoValidationError d)
       \<and> ''__all__'' \<in> fst ` set d \<and> vd_tickets validated_data = Some tickets_data \<longrightarrow>
        (\<exists>pre td post. tickets_data = pre @ td # post \<and> requests_pass db ord pre
           \<and> isValidSeat (airplane (attrs_flight td)) (attrs_row td) (attrs_seat td)
           \<and> seat_taken (after_requests db ord pre) (Ticket_init ord td)))
   \<and> (find (\<lambda>f. flight_id f = input_flight data) (flights db) = Some f
       \<and> find (\<lambda>obj. order_id obj = input_order data) (orders db) = Some obj
       \<and> seat_taken db
            (Ticket_init obj
               \<lparr>attrs_row = input_row data, attrs_seat = input_seat data, attrs_flight = f\<rparr>) \<longrightarrow>
      TicketSerializer_run_validation db data
        = Inl (DRFValidationError [(''non_field_errors'', unique_set_message)]))"
proof -
  have 1: "\<not> isValidSeat (airplane (flight t)) (row t) (seat t) \<Longrightarrow>
      Ticket_save db t
        = (db, validate_ticket (row t) (seat t) (airplane (flight t)) DjangoValidationError)"
    by (simp add: Ticket_save_out_of_range clean_def)
  have 2: "\<not> isValidSeat (airplane (flight t)) (row t) (seat t) \<Longrightarrow>
      \<exists>field msg. (field = ''row'' \<or> field = ''seat'')
            \<and> snd (Ticket_save db t) = Inl (DjangoValidationError [(field, msg)])"
    using range_error_shape [of "airplane (flight t)" "row t" "seat t" DjangoValidationError]
    by (simp add: 1)
  have 3: "snd (Ticket_save db t) = Inl (DjangoValidationError d) \<Longrightarrow> ''__all__'' \<in> fst ` set d
      \<Longrightarrow> isValidSeat (airplane (flight t)) (row t) (seat t) \<and> seat_taken db t"
    using full_clean_unique_error [of db t d] Ticket_save_error [of db t] by simp
  have 4: "vd_tickets validated_data = Some (pre @ td # post)
       \<and> vd_user validated_data = Instance u \<and> requests_pass db ord pre
       \<and> \<not> isValidSeat (airplane (attrs_flight td)) (attrs_row td) (attrs_seat td) \<Longrightarrow>
      \<exists>field msg. (field = ''row'' \<or> field = ''seat'')
         \<and> validate_ticket (attrs_row td) (attrs_seat td) (airplane (attrs_flight td))
              DjangoValidationError = Inl (DjangoValidationError [(field, msg)])
         \<and> OrderSerializer_create new_pk now db validated_data
              = (db, Inl (DjangoValidationError [(field, msg)]))"
  proof -
    assume a: "vd_tickets validated_data = Some (pre @ td # post)
       \<and> vd_user validated_data = Instance u \<and> requests_pass db ord pre
       \<and> \<not> isValidSeat (airplane (attrs_flight td)) (attrs_row td) (attrs_seat td)"
    then obtain field msg where f: "field = ''row'' \<or> field = ''seat''"
      and v: "validate_ticket (attrs_row td) (attrs_seat td) (airplane (attrs_flight td))
              DjangoValidationError = Inl (DjangoValidationError [(field, msg)])"
      using range_error_shape [of "airplane (attrs_flight td)" "attrs_row td" "attrs_seat td"
          DjangoValidationError] by blast
    from a v have "full_clean (after_requests db ord pre) (Ticket_init ord td)
        = Inl (DjangoValidationError [(field, msg)])"
      by (simp add: full_clean_out_of_range Ticket_init_def clean_def)
    with a have "OrderSerializer_create new_pk now db validated_data
              = (db, Inl (DjangoValidationError [(field, msg)]))"
      by (intro order_first_failure) auto
    with f v show ?thesis by blast
  qed
  have 5: "snd (OrderSerializer_create new_pk now db validated_data)
         = Inl (DjangoValidationError d)
       \<and> ''__all__'' \<in> fst ` set d \<and> vd_tickets validated_data = Some tickets_data \<Longrightarrow>
        \<exists>pre td post. tickets_data = pre @ td # post \<and> requests_pass db ord pre
           \<and> isValidSeat (airplane (attrs_flight td)) (attrs_row td) (attrs_seat td)
           \<and> seat_taken (after_requests db ord pre) (Ticket_init ord td)"
  proof -
    assume a: "snd (OrderSerializer_create new_pk now db validated_data)
         = Inl (DjangoValidationError d)
       \<and> ''__all__'' \<in> fst ` set d \<and> vd_tickets validated_data = Some tickets_data"
    then obtain pre td post where s: "tickets_data = pre @ td # post"
      and p: "requests_pass db ord pre"
      and f: "full_clean (after_requests db ord pre) (Ticket_init ord td)
         = Inl (DjangoValidationError d)"
      using order_failure_split [of new_pk now db validated_data d tickets_data ord] by blast
    from full_clean_unique_error [OF f] a
    have "isValidSeat (airplane (attrs_flight td)) (attrs_row td) (attrs_seat td)
        \<and> seat_taken (after_requests db ord pre) (Ticket_init ord td)"
      by (simp add: Ticket_init_def)
    with s p show ?thesis by blast
  qed
  have 6: "find (\<lambda>f. flight_id f = input_flight data) (flights db) = Some f
       \<and> find (\<lambda>obj. order_id obj = input_order data) (orders db) = Some obj
       \<and> seat_taken db
            (Ticket_init obj
               \<lparr>attrs_row = input_row data, attrs_seat = input_seat data, attrs_flight = f\<rparr>) \<Longrightarrow>
      TicketSerializer_run_validation db data
        = Inl (DRFValidationError [(''non_field_errors'', unique_set_message)])"
    using run_validation_found [of data db f obj] by (simp add: Let_def)
  show ?thesis using 1 2 3 4 5 6 by blast
qed

theorem range_checks_before_uniqueness_witness:
  "\<not> isValidSeat (airplane (flight moved_ticket)) (row moved_ticket) (seat moved_ticket)
   \<and> seat_taken (empty_store\<lparr>tickets := [sample_ticket 8 1]\<rparr>) moved_ticket
   \<and> Ticket_save (empty_store\<lparr>tickets := [sample_ticket 8 1]\<rparr>) moved_ticket
       = (empty_store\<lparr>tickets := [sample_ticket 8 1]\<rparr>,
          Inl (DjangoValidationError
            [(''row'', ''row number must be in available range: (1, rows): (1, 3)'')]))
   \<and> vd_tickets moved_batch = Some ([sample_attrs 3 2] @ moved_attrs # [sample_attrs 3 1])
   \<and> vd_user moved_batch = Instance sample_user
   \<and> requests_pass (empty_store\<lparr>tickets := [sample_ticket 8 1]\<rparr>) other_order
        [sample_attrs 3 2]
   \<and> \<not> isValidSeat (airplane (attrs_flight moved_attrs)) (attrs_row moved_attrs)
        (attrs_seat moved_attrs)
   \<and> seat_taken (after_requests (empty_store\<lparr>tickets := [sample_ticket 8 1]\<rparr>) other_order
        [sample_attrs 3 2]) (Ticket_init other_order moved_attrs)
   \<and> OrderSerializer_create 2 0 (empty_store\<lparr>tickets := [sample_ticket 8 1]\<rparr>) moved_batch
       = (empty_store\<lparr>tickets := [sample_ticket 8 1]\<rparr>,
          Inl (DjangoValidationError
            [(''row'', ''row number must be in available range: (1, rows): (1, 3)'')]))
   \<and> snd (Ticket_save (empty_store\<lparr>tickets := [sample_ticket 3 2]\<rparr>) (sample_ticket 3 2))
       = Inl (DjangoValidationError [(''__all__'', unique_message)])
   \<and> ''__all__'' \<in> fst ` set [(''__all__'', unique_message)]
   \<and> isValidSeat (airplane (flight (sample_ticket 3 2))) (row (sample_ticket 3 2))
        (seat (sample_ticket 3 2))
   \<and> snd (OrderSerializer_create 2 0 (empty_store\<lparr>tickets := [sample_ticket 3 2]\<rparr>)
         duplicate_batch)
       = Inl (DjangoValidationError [(''__all__'', unique_message)])
   \<and> vd_tickets duplicate_batch = Some [sample_attrs 3 1, sample_attrs 3 2]
   \<and> (\<exists>pre td post. [sample_attrs 3 1, sample_attrs 3 2] = pre @ td # post
         \<and> requests_pass (empty_store\<lparr>tickets := [sample_ticket 3 2]\<rparr>) sample_order pre
         \<and> isValidSeat (airplane (attrs_flight td)) (attrs_row td) (attrs_seat td)
         \<and> seat_taken (after_requests (empty_store\<lparr>tickets := [sample_ticket 3 2]\<rparr>)
              sample_order pre) (Ticket_init sample_order td))
   \<and> find (\<lambda>f. flight_id f = input_flight moved_input) (flights moved_store)
       = Some moved_flight
   \<and> find (\<lambda>obj. order_id obj = input_order moved_input) (orders moved_store)
       = Some other_order
   \<and> seat_taken moved_store (Ticket_init other_order moved_attrs)
   \<and> TicketSerializer_run_validation moved_store moved_input
       = Inl (DRFValidationError [(''non_field_errors'', unique_set_message)])"
proof -
  let ?db8 = "empty_store\<lparr>tickets := [sample_ticket 8 1]\<rparr>"
  let ?db3 = "empty_store\<lparr>tickets := [sample_ticket 3 2]\<rparr>"
  have m: "validate_ticket (row moved_ticket) (seat moved_ticket) (airplane (flight moved_ticket))
      DjangoValidationError
     = Inl (DjangoValidationError
         [(''row'', ''row number must be in available range: (1, rows): (1, 3)'')])"
    by (simp add: moved_ticket_def moved_flight_def moved_message)
  have m': "validate_ticket (attrs_row moved_attrs) (attrs_seat moved_attrs)
      (airplane (attrs_flight moved_attrs)) DjangoValidationError
     = Inl (DjangoValidationError
         [(''row'', ''row number must be in available range: (1, rows): (1, 3)'')])"
    by (simp add: moved_attrs_def moved_flight_def moved_message)
  have k: "''__all__'' \<in> fst ` set [(''__all__'', unique_message)]" by simp
  have b: "vd_tickets moved_batch = Some ([sample_attrs 3 2] @ moved_attrs # [sample_attrs 3 1])
      \<and> vd_user moved_batch = Instance sample_user"
    by (simp add: moved_batch_def)
  have b': "vd_tickets duplicate_batch = Some [sample_attrs 3 1, sample_attrs 3 2]"
    by (simp add: duplicate_batch_def)
  note a = range_checks_before_uniqueness [where t = moved_ticket and db = ?db8
      and validated_data = moved_batch and pre = "[sample_attrs 3 2]" and td = moved_attrs
      and post = "[sample_attrs 3 1]" and u = sample_user and ord = other_order
      and new_pk = 2 and now = 0]
  note c = range_checks_before_uniqueness [where t = "sample_ticket 3 2" and db = ?db3
      and d = "[(''__all__'', unique_message)]" and new_pk = 2 and now = 0
      and validated_data = duplicate_batch and ord = sample_order
      and tickets_data = "[sample_attrs 3 1, sample_attrs 3 2]"]
  note e = range_checks_before_uniqueness [where db = moved_store and data = moved_input
      and f = moved_flight and obj = other_order]
  from a moved_invalid m
  have 1: "Ticket_save ?db8 moved_ticket
       = (?db8, Inl (DjangoValidationError
            [(''row'', ''row number must be in available range: (1, rows): (1, 3)'')]))"
    by simp
  from a b moved_batch_pass moved_attrs_invalid
  obtain field msg where "validate_ticket (attrs_row moved_attrs) (attrs_seat moved_attrs)
        (airplane (attrs_flight moved_attrs)) DjangoValidationError
      = Inl (DjangoValidationError [(field, msg)])"
    and "OrderSerializer_create 2 0 ?db8 moved_batch
      = (?db8, Inl (DjangoValidationError [(field, msg)]))" by blast
  with m' have 2: "OrderSerializer_create 2 0 ?db8 moved_batch
       = (?db8, Inl (DjangoValidationError
            [(''row'', ''row number must be in available range: (1, rows): (1, 3)'')]))"
    by simp
  from c sample_dup_save k
  have 3: "isValidSeat (airplane (flight (sample_ticket 3 2))) (row (sample_ticket 3 2))
        (seat (sample_ticket 3 2))" by blast
  have p4: "snd (OrderSerializer_create 2 0 ?db3 duplicate_batch)
        = Inl (DjangoValidationError [(''__all__'', unique_message)])
      \<and> ''__all__'' \<in> fst ` set [(''__all__'', unique_message)]
      \<and> vd_tickets duplicate_batch = Some [sample_attrs 3 1, sample_attrs 3 2]"
    using duplicate_batch_error k b' by (intro conjI)
  have 4: "\<exists>pre td post. [sample_attrs 3 1, sample_attrs 3 2] = pre @ td # post
         \<and> requests_pass ?db3 sample_order pre
         \<and> isValidSeat (airplane (attrs_flight td)) (attrs_row td) (attrs_seat td)
         \<and> seat_taken (after_requests ?db3 sample_order pre) (Ticket_init sample_order td)"
    using c [THEN conjunct2, THEN conjunct2, THEN conjunct2, THEN conjunct1, THEN mp, OF p4] .
  from e moved_store_flight moved_store_order moved_store_taken
  have 5: "TicketSerializer_run_validation moved_store moved_input
       = Inl (DRFValidationError [(''non_field_errors'', unique_set_message)])"
    by (simp add: moved_input_attrs)
  show ?thesis
    apply (intro conjI)
    apply (rule moved_invalid)
    apply (rule moved_taken)
    apply (rule 1)
    apply (rule b [THEN conjunct1])
    apply (rule b [THEN conjunct2])
    apply (rule moved_batch_pass)
    apply (rule moved_attrs_invalid)
    apply (rule moved_batch_taken)
    apply (rule 2)
    apply (rule sample_dup_save)
    apply (rule k)
    apply (rule 3)
    apply (rule duplicate_batch_error)
    apply (rule b')
    apply (rule 4)
    apply (rule moved_store_flight)
    apply (rule moved_store_order)
    apply (rule moved_store_taken)
    apply (rule 5)
    done
qed

section \<open>Orders through the view\<close>

text \<open>
  C8 at the failing input: an authenticated user posts an order with an empty ticket list.
  The \<open>tickets\<close> field is read-only, so the validated data has no such key and
  \<open>OrderSerializer.create\<close> raises \<open>KeyError\<close>; nothing is stored.  \<open>create\<close> itself takes an
  empty list when its argument has one: with a user object it stores an order without
  tickets, and with the bare primary key that \<open>perform_create\<close> passes it raises
  \<open>ValueError\<close>.
\<close>

theorem empty_batch_order:
  "OrderViewSet_create 1 0 empty_store \<lparr>request_user = Some sample_user\<rparr> (Some [])
     = (empty_store, Inl (KeyError ''tickets''))
   \<and> OrderSerializer_create 1 0 empty_store \<lparr>vd_tickets = None, vd_user = Pk 1\<rparr>
     = (empty_store, Inl (KeyError ''tickets''))
   \<and> OrderSerializer_create 1 0 empty_store \<lparr>vd_tickets = Some [], vd_user = Pk 1\<rparr>
     = (empty_store, Inl ValueError)
   \<and> OrderSerializer_create 1 0 empty_store \<lparr>vd_tickets = Some [], vd_user = Instance sample_user\<rparr>
     = (empty_store\<lparr>orders := [sample_order]\<rparr>, Inr sample_order)"
  by (simp add: view_create_authenticated)
    (simp add: OrderSerializer_create_def atomic_def create_body_def Order_objects_create_def
      sample_order_def sample_user_def empty_store_def Let_def)

section \<open>Airplanes without seats\<close>




section \<open>Listing orders\<close>

text \<open>
  C10.  Every order on a page of the order list of an authenticated user is an order of
  the store that this user owns, and no order of anybody else is on it.
\<close>

theorem order_list_scoped_to_user:
  "OrderViewSet_list db req page = Inr result \<and> request_user req = Some u \<longrightarrow>
     (\<forall>obj \<in> set result. user obj = user_pk u \<and> obj \<in> set (orders db))
     \<and> (\<forall>obj \<in> set (orders db). user obj \<noteq> user_pk u \<longrightarrow> obj \<notin> set result)"
  using set_paginate [of page "OrderViewSet_get_queryset db u" result]
  by (auto simp: OrderViewSet_list_def set_get_queryset)

theorem order_list_scoped_to_user_witness:
  "OrderViewSet_list (empty_store\<lparr>orders := [other_order, sample_order]\<rparr>)
       \<lparr>request_user = Some sample_user\<rparr> No_page = Inr [sample_order]
   \<and> request_user \<lparr>request_user = Some sample_user\<rparr> = Some sample_user
   \<and> user sample_order = user_pk sample_user
   \<and> user other_order \<noteq> user_pk sample_user
   \<and> other_order \<in> set (orders (empty_store\<lparr>orders := [other_order, sample_order]\<rparr>))
   \<and> other_order \<notin> set [sample_order]"
proof -
  let ?db = "empty_store\<lparr>orders := [other_order, sample_order]\<rparr>"
  have l: "OrderViewSet_list ?db \<lparr>request_user = Some sample_user\<rparr> No_page = Inr [sample_order]"
    by (simp add: OrderViewSet_list_def OrderViewSet_get_queryset_def paginate_queryset_def
        num_pages_def page_size_def other_order_def sample_order_def sample_user_def)
  have o: "user other_order \<noteq> user_pk sample_user"
    by (simp add: other_order_def sample_user_def)
  have m: "other_order \<in> set (orders ?db)" by simp
  have r: "request_user \<lparr>request_user = Some sample_user\<rparr> = Some sample_user" by simp
  from order_list_scoped_to_user [where db = ?db and req = "\<lparr>request_user = Some sample_user\<rparr>"
      and page = No_page and result = "[sample_order]" and u = sample_user] l r
  have a: "\<forall>obj \<in> set [sample_order]. user obj = user_pk sample_user \<and> obj \<in> set (orders ?db)"
    and b: "\<forall>obj \<in> set (orders ?db). user obj \<noteq> user_pk sample_user \<longrightarrow> obj \<notin> set [sample_order]"
    by blast+
  from b m o have "other_order \<notin> set [sample_order]" by blast
  moreover from a have "user sample_order = user_pk sample_user" by simp
  ultimately show ?thesis using l r o m by blast
qed

end
